theory Spec2Isabelle
  imports Complex_Main
begin

section \<open>Python values\<close>

text \<open>
  The script \<^verbatim>\<open>scripts/sync_to_elasticsearch.py\<close> works on dynamically typed rows
  (\<^verbatim>\<open>RealDictCursor\<close> rows, which are dicts) and builds dicts. A Python value is one
  of the shapes below. A dict is an association list with unique keys, in insertion
  order. A float is represented by the real number it denotes (no NaN and no infinity:
  the script does no float arithmetic, it only tests floats for truth and copies them).
  A str is the list of its code points. The keys of the dicts are the key literals of
  the script and the column names of the queries, kept as 8-bit strings.
\<close>

type_synonym pystr = "nat list"

text \<open>A str literal of the script, as code points.\<close>

definition lit :: "string \<Rightarrow> pystr" where
  "lit s = map of_char s"

datatype pyval =
    PNone
  | PBool bool
  | PInt int
  | PFloat real
  | PStr pystr
  | PList "pyval list"
  | PDict "(string \<times> pyval) list"

type_synonym pydict = "(string \<times> pyval) list"

datatype error =
    KeyError string
  | AttributeError
  | TypeError
  | FileNotFoundError
  | JSONDecodeError
  | OperationalError

text \<open>Truth value of a Python object, as \<^verbatim>\<open>if x\<close>, \<^verbatim>\<open>x or y\<close> and
  \<^verbatim>\<open>filter(None, xs)\<close> test it.\<close>

fun truthy :: "pyval \<Rightarrow> bool" where
  "truthy PNone = False"
| "truthy (PBool b) = b"
| "truthy (PInt i) = (i \<noteq> 0)"
| "truthy (PFloat r) = (r \<noteq> 0)"
| "truthy (PStr s) = (s \<noteq> [])"
| "truthy (PList xs) = (xs \<noteq> [])"
| "truthy (PDict kvs) = (kvs \<noteq> [])"

text \<open>\<^verbatim>\<open>a or b\<close>.\<close>

definition py_or :: "pyval \<Rightarrow> pyval \<Rightarrow> pyval" where
  "py_or a b = (if truthy a then a else b)"

text \<open>
  \<^verbatim>\<open>a == b\<close>, where \<open>b\<close> is an int or str literal of the script: numbers compare by
  value across bool, int and float; everything else compares structurally.
\<close>

fun num_val :: "pyval \<Rightarrow> real option" where
  "num_val (PBool b) = Some (if b then 1 else 0)"
| "num_val (PInt i) = Some (of_int i)"
| "num_val (PFloat r) = Some r"
| "num_val v = None"

definition py_eq :: "pyval \<Rightarrow> pyval \<Rightarrow> bool" where
  "py_eq a b =
     (case (num_val a, num_val b) of
        (Some x, Some y) \<Rightarrow> x = y
      | (None, None) \<Rightarrow> a = b
      | _ \<Rightarrow> False)"

text \<open>\<^verbatim>\<open>x in [v1, ..., vn]\<close>.\<close>

definition py_in :: "pyval \<Rightarrow> pyval list \<Rightarrow> bool" where
  "py_in x vs = list_ex (py_eq x) vs"

text \<open>\<^verbatim>\<open>d.get(k)\<close>, \<^verbatim>\<open>d.get(k, default)\<close> and \<^verbatim>\<open>d[k]\<close> on a dict.\<close>

definition dict_get :: "pydict \<Rightarrow> string \<Rightarrow> pyval" where
  "dict_get d k = (case map_of d k of None \<Rightarrow> PNone | Some v \<Rightarrow> v)"

definition dict_get_default :: "pydict \<Rightarrow> string \<Rightarrow> pyval \<Rightarrow> pyval" where
  "dict_get_default d k dflt = (case map_of d k of None \<Rightarrow> dflt | Some v \<Rightarrow> v)"

definition dict_index :: "pydict \<Rightarrow> string \<Rightarrow> error + pyval" where
  "dict_index d k = (case map_of d k of None \<Rightarrow> Inl (KeyError k) | Some v \<Rightarrow> Inr v)"

text \<open>
  \<^verbatim>\<open>sep.join(xs)\<close>: raises TypeError when an item is not a str.
\<close>

fun str_items :: "pyval list \<Rightarrow> pystr list option" where
  "str_items [] = Some []"
| "str_items (PStr s # vs) = (case str_items vs of None \<Rightarrow> None | Some ss \<Rightarrow> Some (s # ss))"
| "str_items (v # vs) = None"

fun intersperse_str :: "pystr \<Rightarrow> pystr list \<Rightarrow> pystr" where
  "intersperse_str sep [] = []"
| "intersperse_str sep [s] = s"
| "intersperse_str sep (s # t # ss) = s @ sep @ intersperse_str sep (t # ss)"

definition str_join :: "pystr \<Rightarrow> pyval list \<Rightarrow> error + pyval" where
  "str_join sep vs =
     (case str_items vs of None \<Rightarrow> Inl TypeError | Some ss \<Rightarrow> Inr (PStr (intersperse_str sep ss)))"

section \<open>Boost score\<close>

text \<open>
  \<^verbatim>\<open>_calculate_boost(entity_type, subtype)\<close>: the subtype is the row's
  \<^verbatim>\<open>place_type\<close> (a str or None) for a place and its \<^verbatim>\<open>admin_level\<close>
  (an int or None) for a boundary.
\<close>

definition calculate_boost :: "string \<Rightarrow> pyval \<Rightarrow> real" where
  "calculate_boost entity_type subtype =
     (if entity_type = ''place'' then
        (if py_in subtype [PStr (lit ''city''), PStr (lit ''town'')] then 2.0
         else if py_in subtype [PStr (lit ''village''), PStr (lit ''suburb'')] then 1.5
         else 1.0)
      else if entity_type = ''admin_boundary'' then
        (if py_in subtype [PInt 6, PInt 7] then 1.8
         else if py_eq subtype (PInt 4) then 1.5
         else 1.2)
      else if entity_type = ''poi'' then 0.5
      else 0.3)"


section \<open>Text of integers\<close>

text \<open>
  The queries build document identifiers in SQL as \<^verbatim>\<open>'place_' || id::text\<close>; the cast
  writes an integer in decimal, with a leading minus sign when negative.
\<close>

definition digit_char :: "nat \<Rightarrow> char" where
  "digit_char d = char_of (48 + d)"

function nat_text :: "nat \<Rightarrow> string" where
  "nat_text n = (if n < 10 then [digit_char n] else nat_text (n div 10) @ [digit_char (n mod 10)])"
  by pat_completeness auto
termination
  by (relation "measure (\<lambda>n. n)") auto

declare nat_text.simps [simp del]

definition int_text :: "int \<Rightarrow> string" where
  "int_text i = (if i < 0 then CHR ''-'' # nat_text (nat (- i)) else nat_text (nat i))"

text \<open>The characters of such a text are among the ten ASCII digits; read back digit by
  digit they give the number.\<close>

definition ascii_digit :: "char \<Rightarrow> bool" where
  "ascii_digit c = (48 \<le> (of_char c :: nat) \<and> (of_char c :: nat) \<le> 57)"

definition digit_val :: "char \<Rightarrow> nat" where
  "digit_val c = of_char c - 48"

definition digits_value :: "string \<Rightarrow> nat" where
  "digits_value ds = foldl (\<lambda>a c. 10 * a + digit_val c) 0 ds"

section \<open>The relational source\<close>

text \<open>
  The tables of schema \<^verbatim>\<open>normalized\<close>, with the columns the queries read. A SQL NULL is
  \<open>None\<close>. A point geometry is given by its coordinates in EPSG:4326 (x is the longitude,
  y the latitude), a polygon geometry by the points it contains. The tags column holds
  what the driver hands over: None, a str or a dict.
\<close>

type_synonym point = "real \<times> real"

record place_rec =
  pl_id :: int
  pl_name :: "pystr option"
  pl_name_ne :: "pystr option"
  pl_place_type :: "pystr option"
  pl_admin_level :: "int option"
  pl_geom :: "point option"
  pl_ward :: "int option"
  pl_municipality :: "pystr option"
  pl_district :: "pystr option"
  pl_province :: "pystr option"
  pl_tags :: pyval

record boundary_rec =
  ab_id :: int
  ab_name :: "pystr option"
  ab_name_ne :: "pystr option"
  ab_admin_level :: "int option"
  ab_boundary_type :: "pystr option"
  ab_centroid :: "point option"
  ab_geom :: "(point \<Rightarrow> bool) option"
  ab_tags :: pyval

record poi_rec =
  poi_id :: int
  poi_name :: "pystr option"
  poi_geom :: "point option"
  poi_tags :: pyval

record road_rec =
  rd_id :: int
  rd_name :: "pystr option"
  rd_tags :: pyval

text \<open>
  Everything outside the script that a run depends on: the tables, the two PostGIS text
  conversions (\<open>None\<close> from \<open>st_geomfromtext\<close> is a query that raises), the JSON parser
  (\<open>None\<close> is a string it rejects), the interpreter's table of the decimal digits
  beyond ASCII (a code point to its digit) and its limit on the digits \<^verbatim>\<open>int\<close> reads
  (\<^verbatim>\<open>sys.get_int_max_str_digits()\<close>, 0 for no limit), the index name, the text of the
  files by path, the directory of the script, whether connecting to the database fails,
  whether the query of a \<^verbatim>\<open>sync_*\<close> method (named by the word of its log line) fails,
  and which documents the sink accepts.
\<close>

record env =
  places :: "place_rec list"
  admin_boundaries :: "boundary_rec list"
  poi :: "poi_rec list"
  named_roads :: "road_rec list"
  st_astext :: "point \<Rightarrow> pystr"
  st_geomfromtext :: "pystr \<Rightarrow> point option"
  json_loads :: "pystr \<Rightarrow> pyval option"
  unicode_decimal :: "nat \<Rightarrow> nat option"
  int_max_str_digits :: nat
  es_index :: pystr
  files :: "string \<Rightarrow> pystr option"
  script_dir :: string
  db_connect_fails :: bool
  query_fails :: "string \<Rightarrow> bool"
  es_accepts :: "pydict \<Rightarrow> bool"

definition sql_text :: "pystr option \<Rightarrow> pyval" where
  "sql_text v = (case v of None \<Rightarrow> PNone | Some s \<Rightarrow> PStr s)"

definition sql_int :: "int option \<Rightarrow> pyval" where
  "sql_int v = (case v of None \<Rightarrow> PNone | Some i \<Rightarrow> PInt i)"

definition sql_float :: "real option \<Rightarrow> pyval" where
  "sql_float v = (case v of None \<Rightarrow> PNone | Some r \<Rightarrow> PFloat r)"

text \<open>The SELECT lists and WHERE clauses of the four queries; a table is read in list order.\<close>

definition place_row :: "place_rec \<Rightarrow> pydict" where
  "place_row p =
     [(''doc_id'', PStr (lit (''place_'' @ int_text (pl_id p)))),
      (''entity_type'', PStr (lit ''place'')),
      (''name'', sql_text (pl_name p)),
      (''name_ne'', sql_text (pl_name_ne p)),
      (''place_type'', sql_text (pl_place_type p)),
      (''admin_level'', sql_int (pl_admin_level p)),
      (''lat'', sql_float (map_option snd (pl_geom p))),
      (''lon'', sql_float (map_option fst (pl_geom p))),
      (''ward'', sql_int (pl_ward p)),
      (''municipality'', sql_text (pl_municipality p)),
      (''district'', sql_text (pl_district p)),
      (''province'', sql_text (pl_province p)),
      (''tags'', pl_tags p)]"

definition select_places :: "env \<Rightarrow> pydict list" where
  "select_places e = map place_row (filter (\<lambda>p. pl_name p \<noteq> None) (places e))"

definition boundary_row :: "env \<Rightarrow> boundary_rec \<Rightarrow> pydict" where
  "boundary_row e b =
     [(''doc_id'', PStr (lit (''admin_'' @ int_text (ab_id b)))),
      (''entity_type'', PStr (lit ''admin_boundary'')),
      (''name'', sql_text (ab_name b)),
      (''name_ne'', sql_text (ab_name_ne b)),
      (''admin_level'', sql_int (ab_admin_level b)),
      (''boundary_type'', sql_text (ab_boundary_type b)),
      (''lat'', sql_float (map_option snd (ab_centroid b))),
      (''lon'', sql_float (map_option fst (ab_centroid b))),
      (''centroid'', sql_text (map_option (st_astext e) (ab_centroid b))),
      (''tags'', ab_tags b)]"

definition select_admin_boundaries :: "env \<Rightarrow> pydict list" where
  "select_admin_boundaries e =
     map (boundary_row e)
       (filter (\<lambda>b. ab_name b \<noteq> None \<and> ab_admin_level b \<in> {Some 4, Some 6, Some 7, Some 9})
          (admin_boundaries e))"

definition poi_row :: "poi_rec \<Rightarrow> pydict" where
  "poi_row p =
     [(''doc_id'', PStr (lit (''poi_'' @ int_text (poi_id p)))),
      (''entity_type'', PStr (lit ''poi'')),
      (''name'', sql_text (poi_name p)),
      (''lat'', sql_float (map_option snd (poi_geom p))),
      (''lon'', sql_float (map_option fst (poi_geom p))),
      (''tags'', poi_tags p)]"

definition select_poi :: "env \<Rightarrow> pydict list" where
  "select_poi e = take 50000 (map poi_row (filter (\<lambda>p. poi_name p \<noteq> None) (poi e)))"

definition road_row :: "road_rec \<Rightarrow> pydict" where
  "road_row r =
     [(''doc_id'', PStr (lit (''road_'' @ int_text (rd_id r)))),
      (''entity_type'', PStr (lit ''road'')),
      (''name'', sql_text (rd_name r)),
      (''tags'', rd_tags r)]"

definition select_roads :: "env \<Rightarrow> pydict list" where
  "select_roads e = take 10000 (map road_row (filter (\<lambda>r. rd_name r \<noteq> None) (named_roads e)))"

section \<open>The ward name pattern\<close>

text \<open>
  The decimal digits of Python, the property that \<^verbatim>\<open>\d\<close> in a str pattern,
  \<^verbatim>\<open>str.isdecimal\<close> and \<^verbatim>\<open>int\<close> all go by: below 128 they are the ten ASCII digits;
  beyond, they are what the interpreter's Unicode table says, with the digit each stands
  for.
\<close>

definition is_decimal :: "env \<Rightarrow> nat \<Rightarrow> bool" where
  "is_decimal e c = (if c < 128 then 48 \<le> c \<and> c \<le> 57 else unicode_decimal e c \<noteq> None)"

definition decimal_of :: "env \<Rightarrow> nat \<Rightarrow> nat" where
  "decimal_of e c =
     (if c < 128 then c - 48 else (case unicode_decimal e c of None \<Rightarrow> 0 | Some d \<Rightarrow> d))"

text \<open>
  \<^verbatim>\<open>int(s)\<close> on the text of a \<^verbatim>\<open>\d+\<close> group, the only argument the script passes:
  the digits are read in base ten, most significant first. \<open>None\<close> stands for ValueError,
  which the interpreter raises when the text has more digits than its limit (leading
  zeros count). On a text that is not a non-empty run of decimal digits, which the script
  never passes, the function gives \<open>None\<close> as well.
\<close>

definition py_int :: "env \<Rightarrow> pystr \<Rightarrow> int option" where
  "py_int e s =
     (if s \<noteq> [] \<and> list_all (is_decimal e) s
         \<and> (int_max_str_digits e = 0 \<or> length s \<le> int_max_str_digits e)
      then Some (int (foldl (\<lambda>a c. 10 * a + decimal_of e c) 0 s))
      else None)"

text \<open>
  \<^verbatim>\<open>re.match(r'^(.+)-(\d+)$', name)\<close>, as the backtracking matcher runs it. Each piece
  of the pattern maps the remaining input to its alternatives, in the order the matcher
  tries them: a greedy \<^verbatim>\<open>+\<close> tries the longest run first and gives characters back one
  at a time; \<^verbatim>\<open>.\<close> is any character but a newline; \<^verbatim>\<open>\d\<close> is a decimal digit;
  \<^verbatim>\<open>$\<close> holds at the end of the string and just before a newline that ends it. The
  result is the first alternative that succeeds, as the pair of the two groups.
\<close>

definition newline :: nat where
  "newline = 10"

definition hyphen :: nat where
  "hyphen = 45"

definition re_dot :: "nat \<Rightarrow> bool" where
  "re_dot c = (c \<noteq> newline)"

definition re_plus_greedy :: "(nat \<Rightarrow> bool) \<Rightarrow> pystr \<Rightarrow> (pystr \<times> pystr) list" where
  "re_plus_greedy P s =
     map (\<lambda>k. (take k s, drop k s)) (rev [1 ..< Suc (length (takeWhile P s))])"

definition re_lit :: "nat \<Rightarrow> pystr \<Rightarrow> pystr list" where
  "re_lit c s = (case s of [] \<Rightarrow> [] | x # r \<Rightarrow> if x = c then [r] else [])"

definition re_end :: "pystr \<Rightarrow> bool" where
  "re_end s = (s = [] \<or> s = [newline])"

definition ward_regex_matches :: "env \<Rightarrow> pystr \<Rightarrow> (pystr \<times> pystr) list" where
  "ward_regex_matches e s =
     concat (map (\<lambda>(g1, r1).
       concat (map (\<lambda>r2.
         concat (map (\<lambda>(g2, r3). if re_end r3 then [(g1, g2)] else [])
           (re_plus_greedy (is_decimal e) r2)))
         (re_lit hyphen r1)))
       (re_plus_greedy re_dot s))"

definition re_match_ward :: "env \<Rightarrow> pystr \<Rightarrow> (pystr \<times> pystr) option" where
  "re_match_ward e s = (case ward_regex_matches e s of [] \<Rightarrow> None | m # _ \<Rightarrow> Some m)"

text \<open>
  The words of the specification: a ward name has the shape
  \<^verbatim>\<open><municipality>-<digits>\<close> when it has a hyphen, the part before the final hyphen is
  not empty and is on one line, and the part after it is a non-empty run of decimal
  digits.
\<close>

definition before_last_hyphen :: "pystr \<Rightarrow> pystr" where
  "before_last_hyphen s = rev (tl (dropWhile (\<lambda>c. c \<noteq> hyphen) (rev s)))"

definition after_last_hyphen :: "pystr \<Rightarrow> pystr" where
  "after_last_hyphen s = rev (takeWhile (\<lambda>c. c \<noteq> hyphen) (rev s))"

definition ward_pattern :: "env \<Rightarrow> pystr \<Rightarrow> bool" where
  "ward_pattern e s =
     (hyphen \<in> set s \<and> before_last_hyphen s \<noteq> [] \<and> list_all re_dot (before_last_hyphen s)
      \<and> after_last_hyphen s \<noteq> [] \<and> list_all (is_decimal e) (after_last_hyphen s))"

definition strip_final_newline :: "pystr \<Rightarrow> pystr" where
  "strip_final_newline s = (if s \<noteq> [] \<and> last s = newline then butlast s else s)"

section \<open>Document builders\<close>

definition bind :: "error + 'a \<Rightarrow> ('a \<Rightarrow> error + 'b) \<Rightarrow> error + 'b" where
  "bind m f = (case m of Inl e \<Rightarrow> Inl e | Inr x \<Rightarrow> f x)"

text \<open>
  The tag normalisation that opens each of the four \<^verbatim>\<open>generate_docs\<close> bodies (the same
  lines in each): a str is parsed as JSON when it is not empty, and any exception of
  the parser gives the empty dict; None gives the empty dict; any other value is kept.
\<close>

definition parse_tags :: "env \<Rightarrow> pyval \<Rightarrow> pyval" where
  "parse_tags e tags =
     (case tags of
        PStr s \<Rightarrow>
          (if s \<noteq> [] then (case json_loads e s of None \<Rightarrow> PDict [] | Some v \<Rightarrow> v)
           else PDict [])
      | PNone \<Rightarrow> PDict []
      | _ \<Rightarrow> tags)"

text \<open>
  \<^verbatim>\<open>name_en = tags.get('name:en', row['name'])\<close>: only a dict has \<^verbatim>\<open>get\<close>, so any
  other value raises AttributeError, before the default is evaluated.
\<close>

definition name_en_of :: "pyval \<Rightarrow> pydict \<Rightarrow> error + pyval" where
  "name_en_of tags row =
     (case tags of
        PDict kvs \<Rightarrow> bind (dict_index row ''name'') (\<lambda>n. Inr (dict_get_default kvs ''name:en'' n))
      | _ \<Rightarrow> Inl AttributeError)"

text \<open>
  \<^verbatim>\<open>{'lat': row['lat'], 'lon': row['lon']} if row.get('lat') else None\<close>, the same
  expression in the place, boundary and POI builders.
\<close>

definition location_of :: "pydict \<Rightarrow> error + pyval" where
  "location_of row =
     (if truthy (dict_get row ''lat'') then
        bind (dict_index row ''lat'') (\<lambda>lat.
        bind (dict_index row ''lon'') (\<lambda>lon.
          Inr (PDict [(''lat'', lat), (''lon'', lon)])))
      else Inr PNone)"

text \<open>\<^verbatim>\<open>_build_search_text(row)\<close>.\<close>

definition build_search_text :: "pydict \<Rightarrow> error + pyval" where
  "build_search_text row =
     str_join (lit '' '')
       (filter truthy
          [dict_get_default row ''name'' (PStr []),
           dict_get_default row ''name_ne'' (PStr []),
           dict_get_default row ''municipality'' (PStr []),
           dict_get_default row ''district'' (PStr []),
           dict_get_default row ''province'' (PStr [])])"

text \<open>
  \<^verbatim>\<open>_get_parent_admin(centroid)\<close>: the cross join of the boundary table with itself,
  restricted by the WHERE clause, first row (LIMIT 1, here in nested-loop order). A NULL
  level or geometry fails its test. Any exception of the query is caught and gives None,
  as an empty result does.
\<close>

definition st_contains :: "(point \<Rightarrow> bool) option \<Rightarrow> point \<Rightarrow> bool" where
  "st_contains g pt = (case g of None \<Rightarrow> False | Some f \<Rightarrow> f pt)"

definition parent_query :: "env \<Rightarrow> point \<Rightarrow> (boundary_rec \<times> boundary_rec) list" where
  "parent_query e pt =
     concat (map (\<lambda>d. concat (map (\<lambda>p.
         if ab_admin_level d = Some 6 \<and> ab_admin_level p = Some 4
            \<and> st_contains (ab_geom d) pt \<and> st_contains (ab_geom p) pt
         then [(d, p)] else [])
       (admin_boundaries e))) (admin_boundaries e))"

definition parent_row :: "boundary_rec \<times> boundary_rec \<Rightarrow> pydict" where
  "parent_row dp =
     [(''district'', sql_text (ab_name (fst dp))),
      (''district_ne'', sql_text (ab_name_ne (fst dp))),
      (''province'', sql_text (ab_name (snd dp))),
      (''province_ne'', sql_text (ab_name_ne (snd dp)))]"

definition get_parent_admin :: "env \<Rightarrow> pyval \<Rightarrow> pydict option" where
  "get_parent_admin e centroid =
     (case centroid of
        PStr s \<Rightarrow>
          (case st_geomfromtext e s of
             None \<Rightarrow> None
           | Some pt \<Rightarrow> (case parent_query e pt of [] \<Rightarrow> None | dp # _ \<Rightarrow> Some (parent_row dp)))
      | _ \<Rightarrow> None)"

text \<open>\<^verbatim>\<open>hierarchy[k] = v\<close>.\<close>

fun dict_set :: "pydict \<Rightarrow> string \<Rightarrow> pyval \<Rightarrow> pydict" where
  "dict_set [] k v = [(k, v)]"
| "dict_set ((k', v') # d) k v = (if k' = k then (k, v) # d else (k', v') # dict_set d k v)"

definition empty_hierarchy :: pydict where
  "empty_hierarchy =
     [(''ward'', PNone), (''municipality'', PNone), (''municipality_ne'', PNone),
      (''district'', PNone), (''district_ne'', PNone),
      (''province'', PNone), (''province_ne'', PNone)]"

text \<open>The three copies of the parent lookup in \<^verbatim>\<open>_build_admin_hierarchy\<close>: the district
  level copies the province fields only, the municipality and ward levels copy all four.\<close>

definition with_parent_province :: "env \<Rightarrow> pyval \<Rightarrow> pydict \<Rightarrow> pydict" where
  "with_parent_province e centroid h =
     (if truthy centroid then
        (case get_parent_admin e centroid of
           None \<Rightarrow> h
         | Some ph \<Rightarrow>
             (if truthy (PDict ph) then
                dict_set (dict_set h ''province'' (dict_get ph ''province''))
                  ''province_ne'' (dict_get ph ''province_ne'')
              else h))
      else h)"

definition with_parent_district_province :: "env \<Rightarrow> pyval \<Rightarrow> pydict \<Rightarrow> pydict" where
  "with_parent_district_province e centroid h =
     (if truthy centroid then
        (case get_parent_admin e centroid of
           None \<Rightarrow> h
         | Some ph \<Rightarrow>
             (if truthy (PDict ph) then
                dict_set (dict_set (dict_set (dict_set h
                  ''district'' (dict_get ph ''district''))
                  ''district_ne'' (dict_get ph ''district_ne''))
                  ''province'' (dict_get ph ''province''))
                  ''province_ne'' (dict_get ph ''province_ne'')
              else h))
      else h)"

text \<open>
  The ward branch: \<^verbatim>\<open>re.match\<close> raises TypeError when \<^verbatim>\<open>name or ''\<close> is not a str;
  a failing \<^verbatim>\<open>int\<close> is passed over and leaves the ward unset, with the municipality
  already set.
\<close>

definition ward_fields :: "env \<Rightarrow> pyval \<Rightarrow> pydict \<Rightarrow> error + pydict" where
  "ward_fields e name h =
     (case py_or name (PStr []) of
        PStr s \<Rightarrow>
          (case re_match_ward e s of
             None \<Rightarrow> Inr h
           | Some (g1, g2) \<Rightarrow>
               (let h1 = dict_set (dict_set h ''municipality'' (PStr g1)) ''municipality_ne'' (PStr g1)
                in Inr (case py_int e g2 of None \<Rightarrow> h1 | Some w \<Rightarrow> dict_set h1 ''ward'' (PInt w))))
      | _ \<Rightarrow> Inl TypeError)"

text \<open>\<^verbatim>\<open>_build_admin_hierarchy(row)\<close>.\<close>

definition build_admin_hierarchy :: "env \<Rightarrow> pydict \<Rightarrow> error + pydict" where
  "build_admin_hierarchy e row =
     (let admin_level = dict_get row ''admin_level'';
          name = dict_get row ''name'';
          name_ne = dict_get row ''name_ne'';
          centroid = dict_get row ''centroid'';
          hierarchy = empty_hierarchy
      in
        if py_eq admin_level (PInt 4) then
          Inr (dict_set (dict_set hierarchy ''province'' name) ''province_ne'' (py_or name_ne name))
        else if py_eq admin_level (PInt 6) then
          Inr (with_parent_province e centroid
                 (dict_set (dict_set hierarchy ''district'' name) ''district_ne'' (py_or name_ne name)))
        else if py_eq admin_level (PInt 7) then
          Inr (with_parent_district_province e centroid
                 (dict_set (dict_set hierarchy ''municipality'' name)
                    ''municipality_ne'' (py_or name_ne name)))
        else if py_eq admin_level (PInt 9) then
          bind (ward_fields e name hierarchy) (\<lambda>h. Inr (with_parent_district_province e centroid h))
        else Inr hierarchy)"

text \<open>The body of \<^verbatim>\<open>generate_docs\<close> in \<^verbatim>\<open>sync_places\<close>, for one row.\<close>

definition place_doc :: "env \<Rightarrow> pydict \<Rightarrow> error + pydict" where
  "place_doc e row =
     bind (name_en_of (parse_tags e (dict_get row ''tags'')) row) (\<lambda>name_en.
     let boost = calculate_boost ''place'' (dict_get row ''place_type'') in
     bind (dict_index row ''doc_id'') (\<lambda>doc_id.
     bind (dict_index row ''entity_type'') (\<lambda>entity_type.
     bind (dict_index row ''name'') (\<lambda>name.
     bind (location_of row) (\<lambda>location.
     bind (build_search_text row) (\<lambda>search_text.
       Inr [(''_index'', PStr (es_index e)),
            (''_id'', doc_id),
            (''_source'', PDict
              [(''id'', doc_id),
               (''entity_type'', entity_type),
               (''name'', name),
               (''name_ne'', dict_get row ''name_ne''),
               (''name_en'', name_en),
               (''place_type'', dict_get row ''place_type''),
               (''admin_level'', dict_get row ''admin_level''),
               (''location'', location),
               (''ward'', dict_get row ''ward''),
               (''municipality'', dict_get row ''municipality''),
               (''municipality_ne'', dict_get row ''municipality''),
               (''district'', dict_get row ''district''),
               (''district_ne'', dict_get row ''district''),
               (''province'', dict_get row ''province''),
               (''province_ne'', dict_get row ''province''),
               (''country'', PStr (lit ''Nepal'')),
               (''boost_score'', PFloat boost),
               (''search_text'', search_text)])]))))))"

text \<open>The body of \<^verbatim>\<open>generate_docs\<close> in \<^verbatim>\<open>sync_admin_boundaries\<close>, for one row.\<close>

definition boundary_doc :: "env \<Rightarrow> pydict \<Rightarrow> error + pydict" where
  "boundary_doc e row =
     bind (name_en_of (parse_tags e (dict_get row ''tags'')) row) (\<lambda>name_en.
     bind (build_admin_hierarchy e row) (\<lambda>hierarchy.
     let boost = calculate_boost ''admin_boundary'' (dict_get row ''admin_level'') in
     bind (dict_index row ''doc_id'') (\<lambda>doc_id.
     bind (dict_index row ''entity_type'') (\<lambda>entity_type.
     bind (dict_index row ''name'') (\<lambda>name.
     bind (location_of row) (\<lambda>location.
     bind (build_search_text row) (\<lambda>search_text.
       Inr [(''_index'', PStr (es_index e)),
            (''_id'', doc_id),
            (''_source'', PDict
              [(''id'', doc_id),
               (''entity_type'', entity_type),
               (''name'', name),
               (''name_ne'', dict_get row ''name_ne''),
               (''name_en'', name_en),
               (''admin_level'', dict_get row ''admin_level''),
               (''location'', location),
               (''ward'', dict_get hierarchy ''ward''),
               (''municipality'', dict_get hierarchy ''municipality''),
               (''municipality_ne'', dict_get hierarchy ''municipality_ne''),
               (''district'', dict_get hierarchy ''district''),
               (''district_ne'', dict_get hierarchy ''district_ne''),
               (''province'', dict_get hierarchy ''province''),
               (''province_ne'', dict_get hierarchy ''province_ne''),
               (''country'', PStr (lit ''Nepal'')),
               (''boost_score'', PFloat boost),
               (''search_text'', search_text)])])))))))"

text \<open>The body of \<^verbatim>\<open>generate_docs\<close> in \<^verbatim>\<open>sync_poi\<close>, for one row.\<close>

definition poi_doc :: "env \<Rightarrow> pydict \<Rightarrow> error + pydict" where
  "poi_doc e row =
     (let tags = parse_tags e (dict_get row ''tags'') in
     bind (name_en_of tags row) (\<lambda>name_en.
     bind (dict_index row ''doc_id'') (\<lambda>doc_id.
     bind (dict_index row ''entity_type'') (\<lambda>entity_type.
     bind (dict_index row ''name'') (\<lambda>name.
     bind (location_of row) (\<lambda>location.
       Inr [(''_index'', PStr (es_index e)),
            (''_id'', doc_id),
            (''_source'', PDict
              [(''id'', doc_id),
               (''entity_type'', entity_type),
               (''name'', name),
               (''name_en'', name_en),
               (''location'', location),
               (''country'', PStr (lit ''Nepal'')),
               (''boost_score'', PFloat 0.5),
               (''tags'', tags),
               (''search_text'', name)])]))))))"

text \<open>The body of \<^verbatim>\<open>generate_docs\<close> in \<^verbatim>\<open>sync_roads\<close>, for one row.\<close>

definition road_doc :: "env \<Rightarrow> pydict \<Rightarrow> error + pydict" where
  "road_doc e row =
     bind (name_en_of (parse_tags e (dict_get row ''tags'')) row) (\<lambda>name_en.
     bind (dict_index row ''doc_id'') (\<lambda>doc_id.
     bind (dict_index row ''entity_type'') (\<lambda>entity_type.
     bind (dict_index row ''name'') (\<lambda>name.
       Inr [(''_index'', PStr (es_index e)),
            (''_id'', doc_id),
            (''_source'', PDict
              [(''id'', doc_id),
               (''entity_type'', entity_type),
               (''name'', name),
               (''name_en'', name_en),
               (''country'', PStr (lit ''Nepal'')),
               (''boost_score'', PFloat 0.3),
               (''search_text'', name)])]))))"

text \<open>Reading a document: its \<^verbatim>\<open>_source\<close> dict and one field of it.\<close>

definition doc_source :: "pydict \<Rightarrow> pydict" where
  "doc_source d = (case map_of d ''_source'' of Some (PDict s) \<Rightarrow> s | _ \<Rightarrow> [])"

definition doc_field :: "pydict \<Rightarrow> string \<Rightarrow> pyval" where
  "doc_field d k = dict_get (doc_source d) k"

section \<open>The run\<close>

text \<open>
  What a run leaves behind: the lines it logged (as events, in order), the mapping of the
  index when the index exists, the documents the generators yielded to the bulk helper
  (in order), and whether the database connection is open. The events are those of the
  top-level methods; the warning of a failed parent lookup is not recorded. Of the
  exceptions a run can meet, the model has those the script's own code raises or
  handles, a failing database connection and a failing query of a \<^verbatim>\<open>sync_*\<close> method; a
  sink call that fails as a whole is not modelled.
\<close>

datatype event =
    Connected
  | ConnectFailed error
  | MappingNotFound
  | IndexDeleted
  | IndexCreated
  | Synced string nat nat
  | SyncCompleted nat
  | SyncFailed error

record run_state =
  events :: "event list"
  index_mapping :: "pyval option"
  streamed :: "pydict list"
  conn_open :: bool

definition then_do ::
  "(error + 'a) \<times> run_state \<Rightarrow> ('a \<Rightarrow> run_state \<Rightarrow> (error + 'b) \<times> run_state)
     \<Rightarrow> (error + 'b) \<times> run_state" where
  "then_do m f = (case m of (Inl err, st) \<Rightarrow> (Inl err, st) | (Inr x, st) \<Rightarrow> f x st)"

text \<open>\<^verbatim>\<open>connect_db\<close>: a failure is logged and raised again.\<close>

definition connect_db :: "env \<Rightarrow> run_state \<Rightarrow> (error + unit) \<times> run_state" where
  "connect_db e st =
     (if db_connect_fails e
      then (Inl OperationalError, st\<lparr>events := events st @ [ConnectFailed OperationalError]\<rparr>)
      else (Inr (), st\<lparr>events := events st @ [Connected], conn_open := True\<rparr>))"

text \<open>\<^verbatim>\<open>os.path.join\<close> of two components, and the two candidate paths of the mapping file.\<close>

definition path_join :: "string \<Rightarrow> string \<Rightarrow> string" where
  "path_join a b =
     (if b \<noteq> [] \<and> hd b = CHR ''/'' then b
      else if a = [] \<or> last a = CHR ''/'' then a @ b
      else a @ ''/'' @ b)"

definition mapping_paths :: "env \<Rightarrow> string list" where
  "mapping_paths e =
     [''/app/mappings/nepal_locations.json'',
      path_join (path_join (path_join (path_join (script_dir e) ''..'') ''elasticsearch'')
        ''mappings'') ''nepal_locations.json'']"

text \<open>The loop over the candidates: the first path that exists, None when none does.\<close>

definition find_mapping_path :: "env \<Rightarrow> string option" where
  "find_mapping_path e = List.find (\<lambda>p. files e p \<noteq> None) (mapping_paths e)"

text \<open>\<^verbatim>\<open>open(path, 'r')\<close> and reading the file: \<^verbatim>\<open>open(None, 'r')\<close> raises TypeError,
  a path with no file raises FileNotFoundError.\<close>

definition py_open :: "env \<Rightarrow> string option \<Rightarrow> error + pystr" where
  "py_open e path =
     (case path of
        None \<Rightarrow> Inl TypeError
      | Some p \<Rightarrow> (case files e p of None \<Rightarrow> Inl FileNotFoundError | Some c \<Rightarrow> Inr c))"

text \<open>\<^verbatim>\<open>_get_default_mapping\<close>.\<close>

definition get_default_mapping :: pyval where
  "get_default_mapping =
     PDict
       [(''settings'', PDict [(''number_of_shards'', PInt 1), (''number_of_replicas'', PInt 1)]),
        (''mappings'', PDict
          [(''properties'', PDict
            [(''entity_type'', PDict [(''type'', PStr (lit ''keyword''))]),
             (''name'', PDict
                [(''type'', PStr (lit ''text'')),
                 (''fields'', PDict [(''keyword'', PDict [(''type'', PStr (lit ''keyword''))])])]),
             (''location'', PDict [(''type'', PStr (lit ''geo_point''))]),
             (''country'', PDict [(''type'', PStr (lit ''keyword''))])])])]"

text \<open>
  The \<^verbatim>\<open>try\<close> block of \<^verbatim>\<open>create_index\<close>: only FileNotFoundError is handled (a warning
  and the default mapping); any other exception leaves the function.
\<close>

definition load_mapping :: "env \<Rightarrow> run_state \<Rightarrow> (error + pyval) \<times> run_state" where
  "load_mapping e st =
     (case py_open e (find_mapping_path e) of
        Inl FileNotFoundError \<Rightarrow>
          (Inr get_default_mapping, st\<lparr>events := events st @ [MappingNotFound]\<rparr>)
      | Inl err \<Rightarrow> (Inl err, st)
      | Inr content \<Rightarrow>
          (case json_loads e content of
             None \<Rightarrow> (Inl JSONDecodeError, st)
           | Some m \<Rightarrow> (Inr m, st)))"

text \<open>\<^verbatim>\<open>create_index\<close>.\<close>

definition create_index :: "env \<Rightarrow> run_state \<Rightarrow> (error + unit) \<times> run_state" where
  "create_index e st =
     then_do (load_mapping e st) (\<lambda>mapping st1.
       let st2 = (if index_mapping st1 \<noteq> None
                  then st1\<lparr>events := events st1 @ [IndexDeleted], index_mapping := None\<rparr>
                  else st1)
       in (Inr (), st2\<lparr>events := events st2 @ [IndexCreated], index_mapping := Some mapping\<rparr>))"

text \<open>
  A generator \<^verbatim>\<open>generate_docs\<close> over the rows of a cursor: the documents it yields, and
  the exception that ends it when building a row raises.
\<close>

fun generate_docs :: "(pydict \<Rightarrow> error + pydict) \<Rightarrow> pydict list \<Rightarrow> pydict list \<times> error option" where
  "generate_docs build [] = ([], None)"
| "generate_docs build (row # rows) =
     (case build row of
        Inl err \<Rightarrow> ([], Some err)
      | Inr doc \<Rightarrow> (case generate_docs build rows of (docs, r) \<Rightarrow> (doc # docs, r)))"

text \<open>
  \<^verbatim>\<open>helpers.bulk(self.es, generate_docs(), raise_on_error=False)\<close>: the numbers of
  documents the sink accepted and refused. An exception of the generator passes through
  the helper.
\<close>

definition bulk :: "env \<Rightarrow> pydict list \<Rightarrow> nat \<times> nat" where
  "bulk e docs = (length (filter (es_accepts e) docs), length (filter (\<lambda>d. \<not> es_accepts e d) docs))"

text \<open>The common shape of the four \<^verbatim>\<open>sync_*\<close> methods, which differ in the query, the row
  builder and the word in the log line; the result is the number of accepted documents.
  \<^verbatim>\<open>cur.execute(query)\<close> raises when the query fails, before any row is read.\<close>

definition run_pipeline ::
  "env \<Rightarrow> string \<Rightarrow> (pydict \<Rightarrow> error + pydict) \<Rightarrow> pydict list \<Rightarrow> run_state
     \<Rightarrow> (error + nat) \<times> run_state" where
  "run_pipeline e label build rows st =
     (if query_fails e label then (Inl OperationalError, st)
      else
        (case generate_docs build rows of
           (docs, Some err) \<Rightarrow> (Inl err, st\<lparr>streamed := streamed st @ docs\<rparr>)
         | (docs, None) \<Rightarrow>
             (case bulk e docs of
                (success, failed) \<Rightarrow>
                  (Inr success,
                   st\<lparr>events := events st @ [Synced label success failed],
                      streamed := streamed st @ docs\<rparr>))))"

definition sync_places :: "env \<Rightarrow> run_state \<Rightarrow> (error + nat) \<times> run_state" where
  "sync_places e st = run_pipeline e ''places'' (place_doc e) (select_places e) st"

definition sync_admin_boundaries :: "env \<Rightarrow> run_state \<Rightarrow> (error + nat) \<times> run_state" where
  "sync_admin_boundaries e st =
     run_pipeline e ''admin boundaries'' (boundary_doc e) (select_admin_boundaries e) st"

definition sync_poi :: "env \<Rightarrow> run_state \<Rightarrow> (error + nat) \<times> run_state" where
  "sync_poi e st = run_pipeline e ''POI'' (poi_doc e) (select_poi e) st"

definition sync_roads :: "env \<Rightarrow> run_state \<Rightarrow> (error + nat) \<times> run_state" where
  "sync_roads e st = run_pipeline e ''roads'' (road_doc e) (select_roads e) st"

text \<open>The \<^verbatim>\<open>try\<close> block of \<^verbatim>\<open>sync_all\<close>: the first exception ends it.\<close>

definition sync_all_body :: "env \<Rightarrow> run_state \<Rightarrow> (error + unit) \<times> run_state" where
  "sync_all_body e st0 =
     then_do (connect_db e st0) (\<lambda>_ st1.
     then_do (create_index e st1) (\<lambda>_ st2.
     then_do (sync_places e st2) (\<lambda>total_places st3.
     then_do (sync_admin_boundaries e st3) (\<lambda>total_admin st4.
     then_do (sync_poi e st4) (\<lambda>total_poi st5.
     then_do (sync_roads e st5) (\<lambda>total_roads st6.
       (Inr (),
        st6\<lparr>events := events st6 @
               [SyncCompleted (total_places + total_admin + total_poi + total_roads)]\<rparr>)))))))"

text \<open>
  \<^verbatim>\<open>sync_all\<close>: an exception of the body is logged and the process exits with status 1
  (\<^verbatim>\<open>sys.exit(1)\<close>); otherwise the script ends with status 0. The \<^verbatim>\<open>finally\<close> clause
  closes the connection either way.
\<close>

definition sync_all :: "env \<Rightarrow> run_state \<Rightarrow> nat \<times> run_state" where
  "sync_all e st0 =
     (case sync_all_body e st0 of
        (Inl err, st) \<Rightarrow> (1, st\<lparr>events := events st @ [SyncFailed err], conn_open := False\<rparr>)
      | (Inr _, st) \<Rightarrow> (0, st\<lparr>conn_open := False\<rparr>))"

definition initial_state :: run_state where
  "initial_state = \<lparr>events = [], index_mapping = None, streamed = [], conn_open = False\<rparr>"

text \<open>The identifier of a document, the \<^verbatim>\<open>_id\<close> the sink stores it under.\<close>

definition doc_id_of :: "pydict \<Rightarrow> pyval" where
  "doc_id_of d = dict_get d ''_id''"

section \<open>Notions used in the statements\<close>

text \<open>The non-empty values among a list of optional strings, in order.\<close>

definition nonempty_values :: "pystr option list \<Rightarrow> pystr list" where
  "nonempty_values xs =
     concat (map (\<lambda>x. case x of None \<Rightarrow> [] | Some s \<Rightarrow> if s = [] then [] else [s]) xs)"

text \<open>A way to read \<open>s\<close> as the two groups of the ward pattern followed by the end of
  the string.\<close>

definition ward_split :: "env \<Rightarrow> pystr \<Rightarrow> pystr \<Rightarrow> pystr \<Rightarrow> bool" where
  "ward_split e s g1 g2 \<longleftrightarrow>
     (\<exists>r3. s = g1 @ hyphen # g2 @ r3 \<and> g1 \<noteq> [] \<and> list_all re_dot g1
           \<and> g2 \<noteq> [] \<and> list_all (is_decimal e) g2 \<and> re_end r3)"

text \<open>
  The number a run of digits writes in base ten: the digit at position \<open>i\<close> of \<open>n\<close> digits
  counts \<open>10 ^ (n - 1 - i)\<close> times, where \<open>d\<close> gives the digit a character stands for.
\<close>

definition positional_value :: "(nat \<Rightarrow> nat) \<Rightarrow> pystr \<Rightarrow> nat" where
  "positional_value d ds = (\<Sum>i<length ds. d (ds ! i) * 10 ^ (length ds - Suc i))"

text \<open>The documents each generator yields in a run: none when the query of its
  \<^verbatim>\<open>sync_*\<close> method fails.\<close>

definition place_docs :: "env \<Rightarrow> pydict list" where
  "place_docs e =
     (if query_fails e ''places'' then []
      else fst (generate_docs (place_doc e) (select_places e)))"

definition boundary_docs :: "env \<Rightarrow> pydict list" where
  "boundary_docs e =
     (if query_fails e ''admin boundaries'' then []
      else fst (generate_docs (boundary_doc e) (select_admin_boundaries e)))"

definition poi_docs :: "env \<Rightarrow> pydict list" where
  "poi_docs e =
     (if query_fails e ''POI'' then []
      else fst (generate_docs (poi_doc e) (select_poi e)))"

definition road_docs :: "env \<Rightarrow> pydict list" where
  "road_docs e =
     (if query_fails e ''roads'' then []
      else fst (generate_docs (road_doc e) (select_roads e)))"

section \<open>Example inputs\<close>

definition pokhara :: place_rec where
  "pokhara =
     \<lparr>pl_id = 1, pl_name = Some (lit ''Pokhara''), pl_name_ne = None,
      pl_place_type = Some (lit ''city''),
      pl_admin_level = None, pl_geom = Some (83.98, 28.21), pl_ward = None,
      pl_municipality = None, pl_district = Some (lit ''Kaski''),
      pl_province = Some (lit ''Gandaki''),
      pl_tags = PStr (lit ''not json'')\<rparr>"

definition equator_place :: place_rec where
  "equator_place =
     \<lparr>pl_id = 2, pl_name = Some (lit ''Null Island Camp''), pl_name_ne = None,
      pl_place_type = Some (lit ''village''), pl_admin_level = None, pl_geom = Some (85.3, 0),
      pl_ward = None, pl_municipality = None, pl_district = None, pl_province = None,
      pl_tags = PNone\<rparr>"

definition gandaki :: boundary_rec where
  "gandaki =
     \<lparr>ab_id = 10, ab_name = Some (lit ''Gandaki''), ab_name_ne = None, ab_admin_level = Some 4,
      ab_boundary_type = Some (lit ''administrative''), ab_centroid = Some (84, 28.5),
      ab_geom = Some (\<lambda>pt. 82 \<le> fst pt \<and> fst pt \<le> 86), ab_tags = PNone\<rparr>"

definition kaski :: boundary_rec where
  "kaski =
     \<lparr>ab_id = 11, ab_name = Some (lit ''Kaski''), ab_name_ne = None, ab_admin_level = Some 6,
      ab_boundary_type = Some (lit ''administrative''), ab_centroid = Some (84, 28.3),
      ab_geom = Some (\<lambda>pt. 83 \<le> fst pt \<and> fst pt \<le> 85), ab_tags = PNone\<rparr>"

definition ward_kathmandu_05 :: boundary_rec where
  "ward_kathmandu_05 =
     \<lparr>ab_id = 12, ab_name = Some (lit ''Kathmandu-05''), ab_name_ne = None,
      ab_admin_level = Some 9,
      ab_boundary_type = Some (lit ''administrative''), ab_centroid = None,
      ab_geom = None, ab_tags = PStr (lit ''not json'')\<rparr>"

definition ward_nopattern :: boundary_rec where
  "ward_nopattern =
     \<lparr>ab_id = 13, ab_name = Some (lit ''NoPattern''), ab_name_ne = None, ab_admin_level = Some 9,
      ab_boundary_type = Some (lit ''administrative''), ab_centroid = Some (84, 28.2),
      ab_geom = None, ab_tags = PNone\<rparr>"

text \<open>
  A ward named in Devanagari, with the digits zero and five of that script after the
  hyphen (the code points of the eight letters, U+002D, U+0966, U+096B).
\<close>

definition kathmandu_devanagari :: pystr where
  "kathmandu_devanagari = [0x0915, 0x093E, 0x0920, 0x092E, 0x093E, 0x0921, 0x094C, 0x0902]"

definition ward_devanagari :: boundary_rec where
  "ward_devanagari =
     \<lparr>ab_id = 14, ab_name = Some (kathmandu_devanagari @ [hyphen, 0x0966, 0x096B]),
      ab_name_ne = None, ab_admin_level = Some 9,
      ab_boundary_type = Some (lit ''administrative''), ab_centroid = None,
      ab_geom = None, ab_tags = PNone\<rparr>"

text \<open>A ward whose name ends in a newline after the digits.\<close>

definition ward_final_newline :: boundary_rec where
  "ward_final_newline =
     \<lparr>ab_id = 15, ab_name = Some (lit ''Kathmandu-05'' @ [newline]),
      ab_name_ne = None, ab_admin_level = Some 9,
      ab_boundary_type = Some (lit ''administrative''), ab_centroid = None,
      ab_geom = None, ab_tags = PNone\<rparr>"

text \<open>A ward whose name has 4301 digits after the hyphen, each the digit one.\<close>

definition ward_long_digits :: boundary_rec where
  "ward_long_digits =
     \<lparr>ab_id = 16, ab_name = Some (lit ''Kathmandu'' @ hyphen # replicate 4301 49),
      ab_name_ne = None, ab_admin_level = Some 9,
      ab_boundary_type = Some (lit ''administrative''), ab_centroid = None,
      ab_geom = None, ab_tags = PNone\<rparr>"

definition lakeside_cafe :: poi_rec where
  "lakeside_cafe =
     \<lparr>poi_id = 1, poi_name = Some (lit ''Lakeside Cafe''), poi_geom = Some (83.96, 28.21),
      poi_tags = PStr (lit ''not json'')\<rparr>"

definition prithvi_highway :: road_rec where
  "prithvi_highway =
     \<lparr>rd_id = 1, rd_name = Some (lit ''Prithvi Highway''), rd_tags = PStr (lit ''not json'')\<rparr>"

text \<open>
  An environment in which the first candidate mapping file exists, every centroid text
  reads as a point inside both example polygons, the JSON parser knows the empty object
  and the empty array, the decimal digits beyond ASCII are the ten of Devanagari
  (U+0966 to U+096F), \<^verbatim>\<open>int\<close> reads up to 4300 digits (the interpreter's default), and no
  query fails.
\<close>

definition example_env :: env where
  "example_env =
     \<lparr>places = [pokhara, equator_place],
      admin_boundaries = [gandaki, kaski, ward_kathmandu_05, ward_nopattern],
      poi = [lakeside_cafe],
      named_roads = [prithvi_highway],
      st_astext = (\<lambda>pt. lit ''POINT''),
      st_geomfromtext = (\<lambda>s. Some (84, 28.2)),
      json_loads = (\<lambda>s. if s = lit ''{}'' then Some (PDict [])
                         else if s = lit ''[]'' then Some (PList []) else None),
      unicode_decimal = (\<lambda>c. if 0x0966 \<le> c \<and> c \<le> 0x096F then Some (c - 0x0966) else None),
      int_max_str_digits = 4300,
      es_index = lit ''nepal_locations'',
      files = (\<lambda>p. if p = ''/app/mappings/nepal_locations.json'' then Some (lit ''{}'') else None),
      script_dir = ''/app/scripts'',
      db_connect_fails = False,
      query_fails = (\<lambda>label. False),
      es_accepts = (\<lambda>d. True)\<rparr>"

text \<open>The same environment with no mapping file at either candidate path.\<close>

definition no_mapping_env :: env where
  "no_mapping_env = example_env\<lparr>files := (\<lambda>p. None)\<rparr>"

text \<open>The same environment in which the query of \<^verbatim>\<open>sync_places\<close> fails.\<close>

definition places_query_fails_env :: env where
  "places_query_fails_env = example_env\<lparr>query_fails := (\<lambda>label. label = ''places'')\<rparr>"

text \<open>An environment whose only boundary is a district: no province contains any point.\<close>

definition district_only_env :: env where
  "district_only_env = example_env\<lparr>admin_boundaries := [kaski]\<rparr>"

section \<open>Lemmas about the builders\<close>

lemma lit_eq_iff [simp]: "lit a = lit b \<longleftrightarrow> a = b"
proof
  assume "lit a = lit b"
  then have "map (of_char :: char \<Rightarrow> nat) a = map of_char b" by (simp add: lit_def)
  then show "a = b" using inj_of_char [where ?'a = nat] by (simp add: inj_map_eq_map)
qed simp

lemma lit_Nil [simp]: "lit [] = []"
  by (simp add: lit_def)

lemma lit_eq_Nil [simp]: "lit s = [] \<longleftrightarrow> s = []"
  by (simp add: lit_def)

lemma lit_append: "lit (a @ b) = lit a @ lit b"
  by (simp add: lit_def)

lemma length_lit [simp]: "length (lit s) = length s"
  by (simp add: lit_def)


lemma bind_Inr_iff: "bind m f = Inr y \<longleftrightarrow> (\<exists>x. m = Inr x \<and> f x = Inr y)"
  by (cases m) (simp_all add: bind_def)

lemma bind_Inr [simp]: "bind (Inr x) f = f x"
  by (simp add: bind_def)

lemma str_items_sql_text:
  "str_items (filter truthy (map sql_text xs)) = Some (nonempty_values xs)"
proof (induction xs)
  case Nil
  show ?case by (simp add: nonempty_values_def)
next
  case (Cons x xs)
  then show ?case
    by (cases x) (simp_all add: nonempty_values_def sql_text_def)
qed

lemma str_join_sql_text:
  "str_join sep (filter truthy (map sql_text xs)) = Inr (PStr (intersperse_str sep (nonempty_values xs)))"
  by (simp add: str_join_def str_items_sql_text)

lemma build_search_text_place_row:
  "build_search_text (place_row p) =
     Inr (PStr (intersperse_str (lit '' '')
       (nonempty_values [pl_name p, pl_name_ne p, pl_municipality p, pl_district p, pl_province p])))"
proof -
  have "build_search_text (place_row p) =
        str_join (lit '' '') (filter truthy (map sql_text
          [pl_name p, pl_name_ne p, pl_municipality p, pl_district p, pl_province p]))"
    by (simp add: build_search_text_def place_row_def dict_get_default_def)
  then show ?thesis by (simp only: str_join_sql_text)
qed

lemma build_search_text_boundary_row:
  "build_search_text (boundary_row e b) =
     Inr (PStr (intersperse_str (lit '' '') (nonempty_values [ab_name b, ab_name_ne b])))"
proof -
  have "build_search_text (boundary_row e b) =
        str_join (lit '' '') (filter truthy (map sql_text [ab_name b, ab_name_ne b]))"
    by (simp add: build_search_text_def boundary_row_def dict_get_default_def)
  then show ?thesis by (simp only: str_join_sql_text)
qed

lemma location_of_place_row:
  "location_of (place_row p) =
     Inr (case pl_geom p of
            None \<Rightarrow> PNone
          | Some (x, y) \<Rightarrow> if y = 0 then PNone else PDict [(''lat'', PFloat y), (''lon'', PFloat x)])"
  by (cases "pl_geom p")
     (auto simp: location_of_def place_row_def dict_get_def dict_index_def sql_float_def)

lemma location_of_boundary_row:
  "location_of (boundary_row e b) =
     Inr (case ab_centroid b of
            None \<Rightarrow> PNone
          | Some (x, y) \<Rightarrow> if y = 0 then PNone else PDict [(''lat'', PFloat y), (''lon'', PFloat x)])"
  by (cases "ab_centroid b")
     (auto simp: location_of_def boundary_row_def dict_get_def dict_index_def sql_float_def)

lemma location_of_poi_row:
  "location_of (poi_row p) =
     Inr (case poi_geom p of
            None \<Rightarrow> PNone
          | Some (x, y) \<Rightarrow> if y = 0 then PNone else PDict [(''lat'', PFloat y), (''lon'', PFloat x)])"
  by (cases "poi_geom p")
     (auto simp: location_of_def poi_row_def dict_get_def dict_index_def sql_float_def)

lemma parse_tags_malformed:
  "json_loads e s = None \<Longrightarrow> parse_tags e (PStr s) = PDict []"
  by (simp add: parse_tags_def)


lemma dict_index_place_row:
  "dict_index (place_row p) ''doc_id'' = Inr (PStr (lit (''place_'' @ int_text (pl_id p))))"
  "dict_index (place_row p) ''entity_type'' = Inr (PStr (lit ''place''))"
  "dict_index (place_row p) ''name'' = Inr (sql_text (pl_name p))"
  by (simp_all add: place_row_def dict_index_def)

lemma dict_get_place_row:
  "dict_get (place_row p) ''tags'' = pl_tags p"
  "dict_get (place_row p) ''name_ne'' = sql_text (pl_name_ne p)"
  "dict_get (place_row p) ''place_type'' = sql_text (pl_place_type p)"
  "dict_get (place_row p) ''admin_level'' = sql_int (pl_admin_level p)"
  "dict_get (place_row p) ''ward'' = sql_int (pl_ward p)"
  "dict_get (place_row p) ''municipality'' = sql_text (pl_municipality p)"
  "dict_get (place_row p) ''district'' = sql_text (pl_district p)"
  "dict_get (place_row p) ''province'' = sql_text (pl_province p)"
  by (simp_all add: place_row_def dict_get_def)

lemma name_en_of_dict:
  "dict_index row ''name'' = Inr n \<Longrightarrow>
   name_en_of (PDict kvs) row = Inr (dict_get_default kvs ''name:en'' n)"
  by (simp add: name_en_of_def)

lemma name_en_of_not_dict:
  "(\<And>kvs. tags \<noteq> PDict kvs) \<Longrightarrow> name_en_of tags row = Inl AttributeError"
  by (cases tags) (auto simp: name_en_of_def)

lemma place_doc_eval:
  assumes "parse_tags e (pl_tags p) = PDict kvs"
  shows "\<exists>loc txt. location_of (place_row p) = Inr loc
     \<and> build_search_text (place_row p) = Inr txt
     \<and> place_doc e (place_row p) =
       Inr [(''_index'', PStr (es_index e)),
            (''_id'', PStr (lit (''place_'' @ int_text (pl_id p)))),
            (''_source'', PDict
              [(''id'', PStr (lit (''place_'' @ int_text (pl_id p)))),
               (''entity_type'', PStr (lit ''place'')),
               (''name'', sql_text (pl_name p)),
               (''name_ne'', sql_text (pl_name_ne p)),
               (''name_en'', dict_get_default kvs ''name:en'' (sql_text (pl_name p))),
               (''place_type'', sql_text (pl_place_type p)),
               (''admin_level'', sql_int (pl_admin_level p)),
               (''location'', loc),
               (''ward'', sql_int (pl_ward p)),
               (''municipality'', sql_text (pl_municipality p)),
               (''municipality_ne'', sql_text (pl_municipality p)),
               (''district'', sql_text (pl_district p)),
               (''district_ne'', sql_text (pl_district p)),
               (''province'', sql_text (pl_province p)),
               (''province_ne'', sql_text (pl_province p)),
               (''country'', PStr (lit ''Nepal'')),
               (''boost_score'', PFloat (calculate_boost ''place'' (sql_text (pl_place_type p)))),
               (''search_text'', txt)])]"
  using assms
  by (simp add: place_doc_def dict_get_place_row dict_index_place_row name_en_of_dict
      location_of_place_row build_search_text_place_row)

lemma place_doc_raises:
  assumes "\<And>kvs. parse_tags e (pl_tags p) \<noteq> PDict kvs"
  shows "place_doc e (place_row p) = Inl AttributeError"
  using assms
  by (simp add: place_doc_def dict_get_place_row name_en_of_not_dict bind_def)

section \<open>Lemmas about the ward name pattern\<close>

lemma re_plus_greedy_set:
  "(a, r) \<in> set (re_plus_greedy P s) \<longleftrightarrow> s = a @ r \<and> a \<noteq> [] \<and> list_all P a"
proof
  assume "(a, r) \<in> set (re_plus_greedy P s)"
  then obtain k where k: "1 \<le> k" "k \<le> length (takeWhile P s)" "a = take k s" "r = drop k s"
    by (auto simp: re_plus_greedy_def)
  have "length (takeWhile P s) \<le> length s" by (rule length_takeWhile_le)
  with k have "a \<noteq> []" by auto
  moreover have "take k s = take k (takeWhile P s)"
    using k(2) by (metis takeWhile_dropWhile_id take_append take_all_iff append_Nil2 diff_is_0_eq take_0)
  then have "list_all P a"
    using k(3) by (metis in_set_takeD list_all_iff set_takeWhileD)
  ultimately show "s = a @ r \<and> a \<noteq> [] \<and> list_all P a" using k by simp
next
  assume h: "s = a @ r \<and> a \<noteq> [] \<and> list_all P a"
  then have "takeWhile P s = a @ takeWhile P r"
    by (simp add: takeWhile_append2 list_all_iff)
  then have "length a \<le> length (takeWhile P s)" by simp
  moreover have "1 \<le> length a" using h by (cases a) auto
  moreover have "take (length a) s = a" "drop (length a) s = r" using h by auto
  ultimately show "(a, r) \<in> set (re_plus_greedy P s)"
    unfolding re_plus_greedy_def by (auto simp: image_iff intro!: bexI[of _ "length a"])
qed

lemma re_lit_set: "r \<in> set (re_lit c s) \<longleftrightarrow> s = c # r"
  by (auto simp: re_lit_def split: list.splits)

lemma in_concat_mapI:
  "y \<in> set ys \<Longrightarrow> x \<in> set (f y) \<Longrightarrow> x \<in> set (concat (map f ys))"
  by auto

lemma ward_regex_matches_set:
  "(g1, g2) \<in> set (ward_regex_matches e s) \<longleftrightarrow>
     (\<exists>r3. s = g1 @ hyphen # g2 @ r3 \<and> g1 \<noteq> [] \<and> list_all re_dot g1
           \<and> g2 \<noteq> [] \<and> list_all (is_decimal e) g2 \<and> re_end r3)"
proof
  assume "(g1, g2) \<in> set (ward_regex_matches e s)"
  then show "\<exists>r3. s = g1 @ hyphen # g2 @ r3 \<and> g1 \<noteq> [] \<and> list_all re_dot g1
           \<and> g2 \<noteq> [] \<and> list_all (is_decimal e) g2 \<and> re_end r3"
    unfolding ward_regex_matches_def
    by (auto simp: re_plus_greedy_set re_lit_set split: if_splits)
next
  assume "\<exists>r3. s = g1 @ hyphen # g2 @ r3 \<and> g1 \<noteq> [] \<and> list_all re_dot g1
           \<and> g2 \<noteq> [] \<and> list_all (is_decimal e) g2 \<and> re_end r3"
  then obtain r3 where h: "s = g1 @ hyphen # g2 @ r3" "g1 \<noteq> []" "list_all re_dot g1"
      "g2 \<noteq> []" "list_all (is_decimal e) g2" "re_end r3" by blast
  have a: "(g1, hyphen # g2 @ r3) \<in> set (re_plus_greedy re_dot s)"
    using h by (simp add: re_plus_greedy_set)
  have b: "g2 @ r3 \<in> set (re_lit hyphen (hyphen # g2 @ r3))"
    by (simp add: re_lit_set)
  have c: "(g2, r3) \<in> set (re_plus_greedy (is_decimal e) (g2 @ r3))"
    using h by (simp add: re_plus_greedy_set)
  show "(g1, g2) \<in> set (ward_regex_matches e s)"
    unfolding ward_regex_matches_def
    apply (rule in_concat_mapI[OF a])
    apply (simp only: prod.case)
    apply (rule in_concat_mapI[OF b])
    apply (rule in_concat_mapI[OF c])
    using h(6) apply simp
    done
qed

lemma is_decimal_not_newline: "is_decimal e c \<Longrightarrow> c \<noteq> newline"
  by (auto simp: is_decimal_def newline_def split: if_splits)

lemma is_decimal_not_hyphen: "is_decimal e c \<Longrightarrow> c \<noteq> hyphen"
  by (auto simp: is_decimal_def hyphen_def split: if_splits)

lemma split_at_last_hyphen:
  assumes "hyphen \<notin> set b"
  shows "before_last_hyphen (a @ hyphen # b) = a" "after_last_hyphen (a @ hyphen # b) = b"
proof -
  have r: "rev (a @ hyphen # b) = rev b @ hyphen # rev a" by simp
  have nb: "\<And>x. x \<in> set (rev b) \<Longrightarrow> x \<noteq> hyphen" using assms by auto
  have "dropWhile (\<lambda>c. c \<noteq> hyphen) (rev b @ hyphen # rev a)
          = dropWhile (\<lambda>c. c \<noteq> hyphen) (hyphen # rev a)"
    by (rule dropWhile_append2) (rule nb)
  then have "dropWhile (\<lambda>c. c \<noteq> hyphen) (rev b @ hyphen # rev a) = hyphen # rev a"
    by simp
  then show "before_last_hyphen (a @ hyphen # b) = a"
    unfolding before_last_hyphen_def r by simp
  have "takeWhile (\<lambda>c. c \<noteq> hyphen) (rev b @ hyphen # rev a)
          = rev b @ takeWhile (\<lambda>c. c \<noteq> hyphen) (hyphen # rev a)"
    by (rule takeWhile_append2) (rule nb)
  then have "takeWhile (\<lambda>c. c \<noteq> hyphen) (rev b @ hyphen # rev a) = rev b"
    by simp
  then show "after_last_hyphen (a @ hyphen # b) = b"
    unfolding after_last_hyphen_def r by simp
qed

lemma join_at_last_hyphen:
  assumes "hyphen \<in> set s"
  shows "s = before_last_hyphen s @ hyphen # after_last_hyphen s"
proof -
  let ?P = "\<lambda>c. c \<noteq> hyphen"
  have "dropWhile ?P (rev s) \<noteq> []" using assms by (simp add: dropWhile_eq_Nil_conv)
  moreover have "dropWhile ?P (rev s) \<noteq> [] \<Longrightarrow> hd (dropWhile ?P (rev s)) = hyphen"
    using hd_dropWhile[of ?P "rev s"] by simp
  ultimately have d: "dropWhile ?P (rev s) = hyphen # tl (dropWhile ?P (rev s))"
    by (cases "dropWhile ?P (rev s)") auto
  have "rev s = takeWhile ?P (rev s) @ dropWhile ?P (rev s)" by simp
  then have "rev s = takeWhile ?P (rev s) @ hyphen # tl (dropWhile ?P (rev s))"
    using d by simp
  then have "rev (rev s) = rev (takeWhile ?P (rev s) @ hyphen # tl (dropWhile ?P (rev s)))"
    by simp
  then show ?thesis
    unfolding before_last_hyphen_def after_last_hyphen_def by simp
qed

lemma ward_split_strip:
  assumes "ward_split e s g1 g2"
  shows "strip_final_newline s = g1 @ hyphen # g2"
proof -
  from assms obtain r3 where h: "s = g1 @ hyphen # g2 @ r3" "g2 \<noteq> []"
     "list_all (is_decimal e) g2" "re_end r3" unfolding ward_split_def by blast
  from h(4) consider "r3 = []" | "r3 = [newline]" unfolding re_end_def by blast
  then show ?thesis
  proof cases
    case 1
    have "last s = last g2" using h(1,2) 1 by simp
    moreover have "is_decimal e (last g2)" using h(2,3) by (simp add: list_all_iff)
    ultimately have "last s \<noteq> newline" using is_decimal_not_newline by metis
    then show ?thesis using h(1) 1 by (simp add: strip_final_newline_def)
  next
    case 2
    have "s = (g1 @ hyphen # g2) @ [newline]" using h(1) 2 by simp
    then show ?thesis unfolding strip_final_newline_def by (simp del: append_assoc)
  qed
qed

lemma ward_split_unique:
  assumes "ward_split e s g1 g2"
  shows "g1 = before_last_hyphen (strip_final_newline s)"
    and "g2 = after_last_hyphen (strip_final_newline s)"
    and "ward_pattern e (strip_final_newline s)"
proof -
  have st: "strip_final_newline s = g1 @ hyphen # g2" by (rule ward_split_strip[OF assms])
  from assms have h: "g1 \<noteq> []" "list_all re_dot g1" "g2 \<noteq> []" "list_all (is_decimal e) g2"
    unfolding ward_split_def by blast+
  have nh: "hyphen \<notin> set g2" using h(4) is_decimal_not_hyphen by (auto simp: list_all_iff)
  show a: "g1 = before_last_hyphen (strip_final_newline s)"
    unfolding st using split_at_last_hyphen(1)[OF nh] by simp
  show b: "g2 = after_last_hyphen (strip_final_newline s)"
    unfolding st using split_at_last_hyphen(2)[OF nh] by simp
  have "hyphen \<in> set (strip_final_newline s)" unfolding st by simp
  then show "ward_pattern e (strip_final_newline s)"
    unfolding ward_pattern_def using a b h by simp
qed

lemma strip_final_newline_rest:
  "\<exists>r3. s = strip_final_newline s @ r3 \<and> re_end r3"
proof (cases "s \<noteq> [] \<and> last s = newline")
  case True
  then have "s = butlast s @ [newline]" by (metis append_butlast_last_id)
  then show ?thesis using True unfolding strip_final_newline_def re_end_def by auto
next
  case False
  then show ?thesis unfolding strip_final_newline_def re_end_def by auto
qed

lemma ward_pattern_split:
  assumes "ward_pattern e (strip_final_newline s)"
  shows "ward_split e s (before_last_hyphen (strip_final_newline s))
           (after_last_hyphen (strip_final_newline s))"
proof -
  let ?t = "strip_final_newline s"
  obtain r3 where r: "s = ?t @ r3" "re_end r3" using strip_final_newline_rest by blast
  have "?t = before_last_hyphen ?t @ hyphen # after_last_hyphen ?t"
    using assms join_at_last_hyphen unfolding ward_pattern_def by blast
  then have "s = before_last_hyphen ?t @ hyphen # after_last_hyphen ?t @ r3"
    using r(1) by (metis append_Cons append_assoc)
  then show ?thesis
    unfolding ward_split_def using assms r(2) unfolding ward_pattern_def by blast
qed

lemma re_match_ward_eq:
  "re_match_ward e s =
     (if ward_pattern e (strip_final_newline s)
      then Some (before_last_hyphen (strip_final_newline s), after_last_hyphen (strip_final_newline s))
      else None)"
proof (cases "ward_regex_matches e s")
  case Nil
  have "\<not> ward_pattern e (strip_final_newline s)"
  proof
    assume "ward_pattern e (strip_final_newline s)"
    then have "ward_split e s (before_last_hyphen (strip_final_newline s))
           (after_last_hyphen (strip_final_newline s))" by (rule ward_pattern_split)
    then have "(before_last_hyphen (strip_final_newline s), after_last_hyphen (strip_final_newline s))
       \<in> set (ward_regex_matches e s)"
      unfolding ward_split_def ward_regex_matches_set .
    then show False using Nil by simp
  qed
  then show ?thesis using Nil by (simp add: re_match_ward_def)
next
  case (Cons m ms)
  obtain g1 g2 where m: "m = (g1, g2)" by (cases m)
  have "(g1, g2) \<in> set (ward_regex_matches e s)" using Cons m by simp
  then have w: "ward_split e s g1 g2" unfolding ward_split_def ward_regex_matches_set .
  show ?thesis
    using ward_split_unique[OF w] Cons m by (simp add: re_match_ward_def)
qed

text \<open>Reading digits from the left, as \<^verbatim>\<open>int\<close> does, gives their positional value.\<close>

lemma positional_value_snoc:
  "positional_value d (ds @ [c]) = 10 * positional_value d ds + d c"
proof -
  have "(\<Sum>i<length ds. d ((ds @ [c]) ! i) * 10 ^ (Suc (length ds) - Suc i))
      = (\<Sum>i<length ds. 10 * (d (ds ! i) * 10 ^ (length ds - Suc i)))"
  proof (rule sum.cong)
    fix i assume "i \<in> {..<length ds}"
    then have i: "i < length ds" by simp
    then have "Suc (length ds) - Suc i = Suc (length ds - Suc i)" by simp
    then show "d ((ds @ [c]) ! i) * 10 ^ (Suc (length ds) - Suc i)
        = 10 * (d (ds ! i) * 10 ^ (length ds - Suc i))"
      using i by (simp add: nth_append)
  qed simp
  then show ?thesis
    by (simp add: positional_value_def sum_distrib_left)
qed

lemma foldl_positional_value:
  "foldl (\<lambda>a c. 10 * a + d c) 0 ds = positional_value d ds"
proof (induction ds rule: rev_induct)
  case Nil
  show ?case by (simp add: positional_value_def)
next
  case (snoc c ds)
  then show ?case by (simp add: positional_value_snoc)
qed

lemma py_int_decimal:
  assumes "s \<noteq> []" and "list_all (is_decimal e) s"
  shows "py_int e s =
     (if int_max_str_digits e = 0 \<or> length s \<le> int_max_str_digits e
      then Some (int (positional_value (decimal_of e) s)) else None)"
  using assms by (simp add: py_int_def foldl_positional_value)

text \<open>Decimal text determines the integer.\<close>

lemma digit_val_digit_char: "d < 10 \<Longrightarrow> digit_val (digit_char d) = d"
  by (simp add: digit_val_def digit_char_def)

lemma ascii_digit_digit_char: "d < 10 \<Longrightarrow> ascii_digit (digit_char d)"
  by (simp add: ascii_digit_def digit_char_def)

lemma digits_value_snoc: "digits_value (xs @ [c]) = 10 * digits_value xs + digit_val c"
  by (simp add: digits_value_def)

lemma digits_value_nat_text: "digits_value (nat_text n) = n"
proof (induction n rule: nat_text.induct)
  case (1 n)
  show ?case
  proof (cases "n < 10")
    case True
    then show ?thesis
      by (simp add: nat_text.simps[of n] digits_value_def digit_val_digit_char)
  next
    case False
    then have "digits_value (nat_text (n div 10)) = n div 10" using 1 by simp
    moreover have "nat_text n = nat_text (n div 10) @ [digit_char (n mod 10)]"
      using False by (simp add: nat_text.simps[of n])
    ultimately show ?thesis
      by (simp add: digits_value_snoc digit_val_digit_char)
  qed
qed

lemma nat_text_digits: "nat_text n \<noteq> [] \<and> list_all ascii_digit (nat_text n)"
proof (induction n rule: nat_text.induct)
  case (1 n)
  show ?case
  proof (cases "n < 10")
    case True
    then show ?thesis by (simp add: nat_text.simps[of n] ascii_digit_digit_char)
  next
    case False
    then have "list_all ascii_digit (nat_text (n div 10))" using 1 by simp
    moreover have "nat_text n = nat_text (n div 10) @ [digit_char (n mod 10)]"
      using False by (simp add: nat_text.simps[of n])
    ultimately show ?thesis by (simp add: ascii_digit_digit_char)
  qed
qed

lemma nat_text_inj: "nat_text m = nat_text n \<Longrightarrow> m = n"
  by (metis digits_value_nat_text)

lemma nat_text_no_sign: "nat_text n \<noteq> CHR ''-'' # s"
proof
  assume h: "nat_text n = CHR ''-'' # s"
  have "list_all ascii_digit (nat_text n)" using nat_text_digits by blast
  then have "ascii_digit CHR ''-''" unfolding h by simp
  then show False by (simp add: ascii_digit_def)
qed

lemma nat_text_no_sign': "CHR ''-'' # s \<noteq> nat_text n"
  using nat_text_no_sign[of n s] by (rule not_sym)

lemma int_text_inj: "int_text i = int_text j \<Longrightarrow> i = j"
proof -
  assume h: "int_text i = int_text j"
  show "i = j"
  proof (cases "i < 0")
    case True
    then have j: "j < 0" using h nat_text_no_sign[of "nat j"] nat_text_no_sign'[of _ "nat j"]
      by (auto simp: int_text_def split: if_splits)
    then have "nat (- i) = nat (- j)" using h True nat_text_inj by (simp add: int_text_def)
    then show ?thesis using True j by simp
  next
    case False
    then have j: "\<not> j < 0" using h nat_text_no_sign[of "nat i"] nat_text_no_sign'[of _ "nat i"]
      by (auto simp: int_text_def split: if_splits)
    then have "nat i = nat j" using h False nat_text_inj by (simp add: int_text_def)
    then show ?thesis using False j by simp
  qed
qed

text \<open>The decimal text of a natural number, read as \<^verbatim>\<open>int\<close> reads it, is that number.\<close>

lemma decimal_of_ascii_digit:
  "ascii_digit c \<Longrightarrow> decimal_of e (of_char c) = digit_val c"
  by (auto simp: ascii_digit_def decimal_of_def digit_val_def)

lemma is_decimal_ascii_digit:
  "ascii_digit c \<Longrightarrow> is_decimal e (of_char c)"
  by (auto simp: ascii_digit_def is_decimal_def)

lemma foldl_lit_digits:
  "list_all ascii_digit s \<Longrightarrow>
   foldl (\<lambda>a c. 10 * a + decimal_of e c) a0 (lit s) = foldl (\<lambda>a c. 10 * a + digit_val c) a0 s"
  by (induction s arbitrary: a0) (simp_all add: lit_def decimal_of_ascii_digit)

lemma positional_value_nat_text:
  "positional_value (decimal_of e) (lit (nat_text n)) = n"
proof -
  have "list_all ascii_digit (nat_text n)" using nat_text_digits by blast
  then have "foldl (\<lambda>a c. 10 * a + decimal_of e c) 0 (lit (nat_text n)) = digits_value (nat_text n)"
    unfolding digits_value_def by (rule foldl_lit_digits)
  then show ?thesis by (simp add: foldl_positional_value digits_value_nat_text)
qed

lemma nat_text_is_decimal: "list_all (is_decimal e) (lit (nat_text n))"
proof -
  have "list_all ascii_digit (nat_text n)" using nat_text_digits by blast
  then show ?thesis by (simp add: lit_def list_all_iff is_decimal_ascii_digit)
qed

section \<open>Lemmas about the hierarchy and the documents\<close>

lemma dict_get_dict_set:
  "dict_get (dict_set d k v) k' = (if k' = k then v else dict_get d k')"
  by (induction d) (auto simp: dict_get_def)

lemma py_or_sql_text:
  "py_or (sql_text n) (PStr []) = PStr (case n of None \<Rightarrow> [] | Some s \<Rightarrow> s)"
  by (cases n) (auto simp: py_or_def sql_text_def)

lemma with_parent_district_province_keeps:
  "k \<notin> {''district'', ''district_ne'', ''province'', ''province_ne''} \<Longrightarrow>
   dict_get (with_parent_district_province e c h) k = dict_get h k"
  by (auto simp: with_parent_district_province_def dict_get_dict_set split: option.splits)

lemma dict_get_boundary_row:
  "dict_get (boundary_row e b) ''tags'' = ab_tags b"
  "dict_get (boundary_row e b) ''name'' = sql_text (ab_name b)"
  "dict_get (boundary_row e b) ''name_ne'' = sql_text (ab_name_ne b)"
  "dict_get (boundary_row e b) ''admin_level'' = sql_int (ab_admin_level b)"
  "dict_get (boundary_row e b) ''centroid'' = sql_text (map_option (st_astext e) (ab_centroid b))"
  by (simp_all add: boundary_row_def dict_get_def)

lemma dict_index_boundary_row:
  "dict_index (boundary_row e b) ''doc_id'' = Inr (PStr (lit (''admin_'' @ int_text (ab_id b))))"
  "dict_index (boundary_row e b) ''entity_type'' = Inr (PStr (lit ''admin_boundary''))"
  "dict_index (boundary_row e b) ''name'' = Inr (sql_text (ab_name b))"
  by (simp_all add: boundary_row_def dict_index_def)

lemma ward_fields_sql_text:
  "ward_fields e (sql_text n) h =
     Inr (let s = strip_final_newline (case n of None \<Rightarrow> [] | Some s \<Rightarrow> s) in
          if ward_pattern e s
          then (let h1 = dict_set (dict_set h ''municipality'' (PStr (before_last_hyphen s)))
                           ''municipality_ne'' (PStr (before_last_hyphen s))
                in if int_max_str_digits e = 0
                      \<or> length (after_last_hyphen s) \<le> int_max_str_digits e
                   then dict_set h1 ''ward''
                          (PInt (int (positional_value (decimal_of e) (after_last_hyphen s))))
                   else h1)
          else h)"
  by (simp add: ward_fields_def py_or_sql_text re_match_ward_eq Let_def py_int_decimal
      ward_pattern_def)

lemma build_admin_hierarchy_ward:
  assumes "ab_admin_level b = Some 9"
  shows "build_admin_hierarchy e (boundary_row e b) =
     Inr (with_parent_district_province e (sql_text (map_option (st_astext e) (ab_centroid b)))
       (let s = strip_final_newline (case ab_name b of None \<Rightarrow> [] | Some s \<Rightarrow> s) in
          if ward_pattern e s
          then (let h1 = dict_set (dict_set empty_hierarchy
                             ''municipality'' (PStr (before_last_hyphen s)))
                           ''municipality_ne'' (PStr (before_last_hyphen s))
                in if int_max_str_digits e = 0
                      \<or> length (after_last_hyphen s) \<le> int_max_str_digits e
                   then dict_set h1 ''ward''
                          (PInt (int (positional_value (decimal_of e) (after_last_hyphen s))))
                   else h1)
          else empty_hierarchy))"
  using assms
  by (simp add: build_admin_hierarchy_def dict_get_boundary_row sql_int_def py_eq_def
      ward_fields_sql_text)

text \<open>A name put together from a municipality, a hyphen and digits has the shape, with
  or without a final newline.\<close>

lemma ward_pattern_parts:
  assumes "m \<noteq> []" and "list_all re_dot m" and "ds \<noteq> []" and "list_all (is_decimal e) ds"
  shows "strip_final_newline (m @ hyphen # ds) = m @ hyphen # ds"
    and "strip_final_newline (m @ hyphen # ds @ [newline]) = m @ hyphen # ds"
    and "ward_pattern e (m @ hyphen # ds)"
    and "before_last_hyphen (m @ hyphen # ds) = m"
    and "after_last_hyphen (m @ hyphen # ds) = ds"
proof -
  have nh: "hyphen \<notin> set ds"
    using assms(4) is_decimal_not_hyphen by (auto simp: list_all_iff)
  have "is_decimal e (last ds)" using assms(3,4) by (simp add: list_all_iff)
  then have "last ds \<noteq> newline" by (rule is_decimal_not_newline)
  then show "strip_final_newline (m @ hyphen # ds) = m @ hyphen # ds"
    using assms(3) by (simp add: strip_final_newline_def)
  have "butlast (m @ hyphen # ds @ [newline]) = m @ hyphen # ds"
    by (simp add: butlast_append)
  then show "strip_final_newline (m @ hyphen # ds @ [newline]) = m @ hyphen # ds"
    by (simp add: strip_final_newline_def)
  show b: "before_last_hyphen (m @ hyphen # ds) = m" by (rule split_at_last_hyphen(1)[OF nh])
  show a: "after_last_hyphen (m @ hyphen # ds) = ds" by (rule split_at_last_hyphen(2)[OF nh])
  show "ward_pattern e (m @ hyphen # ds)"
    unfolding ward_pattern_def a b using assms by simp
qed

lemma dict_get_empty_hierarchy:
  "dict_get empty_hierarchy k = PNone"
  by (simp add: empty_hierarchy_def dict_get_def)


lemma dict_get_poi_row:
  "dict_get (poi_row p) ''tags'' = poi_tags p"
  by (simp_all add: poi_row_def dict_get_def)

lemma dict_index_poi_row:
  "dict_index (poi_row p) ''doc_id'' = Inr (PStr (lit (''poi_'' @ int_text (poi_id p))))"
  "dict_index (poi_row p) ''entity_type'' = Inr (PStr (lit ''poi''))"
  "dict_index (poi_row p) ''name'' = Inr (sql_text (poi_name p))"
  by (simp_all add: poi_row_def dict_index_def)

lemma dict_get_road_row:
  "dict_get (road_row r) ''tags'' = rd_tags r"
  by (simp_all add: road_row_def dict_get_def)

lemma dict_index_road_row:
  "dict_index (road_row r) ''doc_id'' = Inr (PStr (lit (''road_'' @ int_text (rd_id r))))"
  "dict_index (road_row r) ''entity_type'' = Inr (PStr (lit ''road''))"
  "dict_index (road_row r) ''name'' = Inr (sql_text (rd_name r))"
  by (simp_all add: road_row_def dict_index_def)

lemma build_admin_hierarchy_total:
  "\<exists>h. build_admin_hierarchy e (boundary_row e b) = Inr h"
  by (simp add: build_admin_hierarchy_def dict_get_boundary_row ward_fields_sql_text Let_def)

lemma boundary_doc_eval:
  assumes "parse_tags e (ab_tags b) = PDict kvs"
  shows "\<exists>h loc txt. build_admin_hierarchy e (boundary_row e b) = Inr h
     \<and> location_of (boundary_row e b) = Inr loc
     \<and> build_search_text (boundary_row e b) = Inr txt
     \<and> boundary_doc e (boundary_row e b) =
       Inr [(''_index'', PStr (es_index e)),
            (''_id'', PStr (lit (''admin_'' @ int_text (ab_id b)))),
            (''_source'', PDict
              [(''id'', PStr (lit (''admin_'' @ int_text (ab_id b)))),
               (''entity_type'', PStr (lit ''admin_boundary'')),
               (''name'', sql_text (ab_name b)),
               (''name_ne'', sql_text (ab_name_ne b)),
               (''name_en'', dict_get_default kvs ''name:en'' (sql_text (ab_name b))),
               (''admin_level'', sql_int (ab_admin_level b)),
               (''location'', loc),
               (''ward'', dict_get h ''ward''),
               (''municipality'', dict_get h ''municipality''),
               (''municipality_ne'', dict_get h ''municipality_ne''),
               (''district'', dict_get h ''district''),
               (''district_ne'', dict_get h ''district_ne''),
               (''province'', dict_get h ''province''),
               (''province_ne'', dict_get h ''province_ne''),
               (''country'', PStr (lit ''Nepal'')),
               (''boost_score'', PFloat (calculate_boost ''admin_boundary'' (sql_int (ab_admin_level b)))),
               (''search_text'', txt)])]"
proof -
  obtain h where h: "build_admin_hierarchy e (boundary_row e b) = Inr h"
    using build_admin_hierarchy_total by blast
  show ?thesis
    using assms h
    by (simp add: boundary_doc_def dict_get_boundary_row dict_index_boundary_row name_en_of_dict
      location_of_boundary_row build_search_text_boundary_row)
qed

lemma boundary_doc_raises:
  assumes "\<And>kvs. parse_tags e (ab_tags b) \<noteq> PDict kvs"
  shows "boundary_doc e (boundary_row e b) = Inl AttributeError"
  using assms
  by (simp add: boundary_doc_def dict_get_boundary_row name_en_of_not_dict bind_def)

lemma poi_doc_eval:
  assumes "parse_tags e (poi_tags p) = PDict kvs"
  shows "\<exists>loc. location_of (poi_row p) = Inr loc
     \<and> poi_doc e (poi_row p) =
       Inr [(''_index'', PStr (es_index e)),
            (''_id'', PStr (lit (''poi_'' @ int_text (poi_id p)))),
            (''_source'', PDict
              [(''id'', PStr (lit (''poi_'' @ int_text (poi_id p)))),
               (''entity_type'', PStr (lit ''poi'')),
               (''name'', sql_text (poi_name p)),
               (''name_en'', dict_get_default kvs ''name:en'' (sql_text (poi_name p))),
               (''location'', loc),
               (''country'', PStr (lit ''Nepal'')),
               (''boost_score'', PFloat 0.5),
               (''tags'', PDict kvs),
               (''search_text'', sql_text (poi_name p))])]"
  using assms
  by (simp add: poi_doc_def dict_get_poi_row dict_index_poi_row name_en_of_dict
      location_of_poi_row Let_def)

lemma poi_doc_raises:
  assumes "\<And>kvs. parse_tags e (poi_tags p) \<noteq> PDict kvs"
  shows "poi_doc e (poi_row p) = Inl AttributeError"
  using assms
  by (simp add: poi_doc_def dict_get_poi_row name_en_of_not_dict bind_def Let_def)

lemma road_doc_eval:
  assumes "parse_tags e (rd_tags r) = PDict kvs"
  shows "road_doc e (road_row r) =
       Inr [(''_index'', PStr (es_index e)),
            (''_id'', PStr (lit (''road_'' @ int_text (rd_id r)))),
            (''_source'', PDict
              [(''id'', PStr (lit (''road_'' @ int_text (rd_id r)))),
               (''entity_type'', PStr (lit ''road'')),
               (''name'', sql_text (rd_name r)),
               (''name_en'', dict_get_default kvs ''name:en'' (sql_text (rd_name r))),
               (''country'', PStr (lit ''Nepal'')),
               (''boost_score'', PFloat 0.3),
               (''search_text'', sql_text (rd_name r))])]"
  using assms
  by (simp add: road_doc_def dict_get_road_row dict_index_road_row name_en_of_dict)

lemma road_doc_raises:
  assumes "\<And>kvs. parse_tags e (rd_tags r) \<noteq> PDict kvs"
  shows "road_doc e (road_row r) = Inl AttributeError"
  using assms
  by (simp add: road_doc_def dict_get_road_row name_en_of_not_dict bind_def)

lemma doc_field_simps:
  "doc_field [(''_index'', i), (''_id'', j), (''_source'', PDict s)] k = dict_get s k"
  by (simp add: doc_field_def doc_source_def)

lemma place_doc_Inr_tags:
  assumes "place_doc e (place_row p) = Inr d"
  shows "\<exists>kvs. parse_tags e (pl_tags p) = PDict kvs"
  using assms place_doc_raises[of e p] by fastforce

lemma boundary_doc_Inr_tags:
  assumes "boundary_doc e (boundary_row e b) = Inr d"
  shows "\<exists>kvs. parse_tags e (ab_tags b) = PDict kvs"
  using assms boundary_doc_raises[of e b] by fastforce

lemma poi_doc_Inr_tags:
  assumes "poi_doc e (poi_row p) = Inr d"
  shows "\<exists>kvs. parse_tags e (poi_tags p) = PDict kvs"
  using assms poi_doc_raises[of e p] by fastforce

lemma road_doc_Inr_tags:
  assumes "road_doc e (road_row r) = Inr d"
  shows "\<exists>kvs. parse_tags e (rd_tags r) = PDict kvs"
  using assms road_doc_raises[of e r] by fastforce

lemma place_doc_boost:
  assumes "place_doc e (place_row p) = Inr d"
  shows "doc_field d ''boost_score'' = PFloat (calculate_boost ''place'' (sql_text (pl_place_type p)))"
proof -
  obtain kvs where "parse_tags e (pl_tags p) = PDict kvs"
    using place_doc_Inr_tags[OF assms] by blast
  from place_doc_eval[OF this] assms show ?thesis
    by (auto simp: doc_field_simps dict_get_def)
qed

lemma boundary_doc_boost:
  assumes "boundary_doc e (boundary_row e b) = Inr d"
  shows "doc_field d ''boost_score'' =
    PFloat (calculate_boost ''admin_boundary'' (sql_int (ab_admin_level b)))"
proof -
  obtain kvs where "parse_tags e (ab_tags b) = PDict kvs"
    using boundary_doc_Inr_tags[OF assms] by blast
  from boundary_doc_eval[OF this] assms show ?thesis
    by (auto simp: doc_field_simps dict_get_def)
qed

lemma poi_doc_boost:
  assumes "poi_doc e (poi_row p) = Inr d"
  shows "doc_field d ''boost_score'' = PFloat 0.5"
proof -
  obtain kvs where "parse_tags e (poi_tags p) = PDict kvs"
    using poi_doc_Inr_tags[OF assms] by blast
  from poi_doc_eval[OF this] assms show ?thesis
    by (auto simp: doc_field_simps dict_get_def)
qed

lemma road_doc_boost:
  assumes "road_doc e (road_row r) = Inr d"
  shows "doc_field d ''boost_score'' = PFloat 0.3"
proof -
  obtain kvs where "parse_tags e (rd_tags r) = PDict kvs"
    using road_doc_Inr_tags[OF assms] by blast
  from road_doc_eval[OF this] assms show ?thesis
    by (auto simp: doc_field_simps dict_get_def)
qed

lemma calculate_boost_place:
  "calculate_boost ''place'' (sql_text t) =
     (if t \<in> {Some (lit ''city''), Some (lit ''town'')} then 2.0
      else if t \<in> {Some (lit ''village''), Some (lit ''suburb'')} then 1.5 else 1.0)"
  by (cases t) (auto simp: calculate_boost_def sql_text_def py_in_def py_eq_def)

lemma calculate_boost_boundary:
  "calculate_boost ''admin_boundary'' (sql_int l) =
     (if l \<in> {Some 6, Some 7} then 1.8
      else if l = Some 4 then 1.5 else 1.2)"
  by (cases l) (auto simp: calculate_boost_def sql_int_def py_in_def py_eq_def)


lemma parse_tags_example_not_json:
  "parse_tags example_env (PStr (lit ''not json'')) = PDict []"
  by (simp add: parse_tags_def example_env_def)

lemma parse_tags_None: "parse_tags e PNone = PDict []"
  by (simp add: parse_tags_def)

section \<open>Claims\<close>

text \<open>
  C3. For every record, the boost score in the document its builder produces is the tier
  fixed by its entity type and subtype: a place of type city or town gets 2.0, village or
  suburb 1.5, any other place 1.0; a boundary of level 6 or 7 gets 1.8, level 4 gets 1.5,
  any other level 1.2; every POI gets 0.5 and every road 0.3.
\<close>

theorem boost_score_tiers:
  "(place_doc e (place_row p) = Inr d \<longrightarrow>
      doc_field d ''boost_score'' =
        PFloat (if pl_place_type p \<in> {Some (lit ''city''), Some (lit ''town'')} then 2.0
                else if pl_place_type p \<in> {Some (lit ''village''), Some (lit ''suburb'')} then 1.5
                else 1.0))
   \<and> (boundary_doc e (boundary_row e b) = Inr d \<longrightarrow>
      doc_field d ''boost_score'' =
        PFloat (if ab_admin_level b \<in> {Some 6, Some 7} then 1.8
                else if ab_admin_level b = Some 4 then 1.5
                else 1.2))
   \<and> (poi_doc e (poi_row q) = Inr d \<longrightarrow> doc_field d ''boost_score'' = PFloat 0.5)
   \<and> (road_doc e (road_row r) = Inr d \<longrightarrow> doc_field d ''boost_score'' = PFloat 0.3)"
  using place_doc_boost[of e p d] boundary_doc_boost[of e b d] poi_doc_boost[of e q d]
    road_doc_boost[of e r d]
  by (simp only: calculate_boost_place calculate_boost_boundary) blast

text \<open>The tiers on the example records: a city, a district, a POI and a road.\<close>

theorem boost_score_tiers_witness:
  "(\<exists>d. place_doc example_env (place_row pokhara) = Inr d
        \<and> doc_field d ''boost_score'' = PFloat 2.0)
   \<and> (\<exists>d. boundary_doc example_env (boundary_row example_env kaski) = Inr d
        \<and> doc_field d ''boost_score'' = PFloat 1.8)
   \<and> (\<exists>d. poi_doc example_env (poi_row lakeside_cafe) = Inr d
        \<and> doc_field d ''boost_score'' = PFloat 0.5)
   \<and> (\<exists>d. road_doc example_env (road_row prithvi_highway) = Inr d
        \<and> doc_field d ''boost_score'' = PFloat 0.3)"
proof -
  have t1: "parse_tags example_env (pl_tags pokhara) = PDict []"
    by (simp add: pokhara_def parse_tags_example_not_json)
  have t2: "parse_tags example_env (ab_tags kaski) = PDict []"
    by (simp add: kaski_def parse_tags_None)
  have t3: "parse_tags example_env (poi_tags lakeside_cafe) = PDict []"
    by (simp add: lakeside_cafe_def parse_tags_example_not_json)
  have t4: "parse_tags example_env (rd_tags prithvi_highway) = PDict []"
    by (simp add: prithvi_highway_def parse_tags_example_not_json)
  obtain d1 where d1: "place_doc example_env (place_row pokhara) = Inr d1"
    using place_doc_eval[OF t1] by blast
  obtain d2 where d2: "boundary_doc example_env (boundary_row example_env kaski) = Inr d2"
    using boundary_doc_eval[OF t2] by blast
  obtain d3 where d3: "poi_doc example_env (poi_row lakeside_cafe) = Inr d3"
    using poi_doc_eval[OF t3] by blast
  obtain d4 where d4: "road_doc example_env (road_row prithvi_highway) = Inr d4"
    using road_doc_eval[OF t4] by blast
  have "doc_field d1 ''boost_score'' = PFloat 2.0"
    using boost_score_tiers[of example_env pokhara d1] d1 by (simp add: pokhara_def)
  moreover have "doc_field d2 ''boost_score'' = PFloat 1.8"
    using boost_score_tiers[of example_env _ d2 kaski] d2 by (simp add: kaski_def)
  moreover have "doc_field d3 ''boost_score'' = PFloat 0.5"
    using boost_score_tiers[of example_env _ d3 _ lakeside_cafe] d3 by simp
  moreover have "doc_field d4 ''boost_score'' = PFloat 0.3"
    using boost_score_tiers[of example_env _ d4 _ _ prithvi_highway] d4 by simp
  ultimately show ?thesis using d1 d2 d3 d4 by blast
qed

text \<open>The example ward names, taken apart at the hyphen.\<close>

lemma kathmandu_one_line: "list_all re_dot (lit ''Kathmandu'')"
  by (simp add: lit_def re_dot_def newline_def)

lemma kathmandu_devanagari_one_line: "list_all re_dot kathmandu_devanagari"
  by (simp add: kathmandu_devanagari_def re_dot_def newline_def)

lemma example_digits:
  "list_all (is_decimal example_env) (lit ''05'')"
  "list_all (is_decimal example_env) [0x0966, 0x096B]"
  "list_all (is_decimal example_env) (replicate 4301 49)"
  by (simp_all add: lit_def is_decimal_def example_env_def list_all_iff)

lemma example_digit_values:
  "positional_value (decimal_of example_env) (lit ''05'') = 5"
  "positional_value (decimal_of example_env) [0x0966, 0x096B] = 5"
  by (simp_all add: foldl_positional_value[symmetric] lit_def decimal_of_def example_env_def)

lemma kathmandu_05_parts: "lit ''Kathmandu-05'' = lit ''Kathmandu'' @ hyphen # lit ''05''"
  by (simp add: lit_def hyphen_def)

lemma nopattern_no_hyphen: "hyphen \<notin> set (lit ''NoPattern'')"
  by (simp add: lit_def hyphen_def)

lemma nopattern_not_ward: "\<not> ward_pattern e (strip_final_newline (lit ''NoPattern''))"
proof -
  have "strip_final_newline (lit ''NoPattern'') = lit ''NoPattern''"
    by (simp add: strip_final_newline_def lit_def newline_def)
  then show ?thesis using nopattern_no_hyphen by (simp add: ward_pattern_def)
qed

lemma final_newline_not_shape:
  "\<not> ward_pattern example_env (lit ''Kathmandu-05'' @ [newline])"
  by (simp add: ward_pattern_def after_last_hyphen_def lit_def hyphen_def newline_def
      is_decimal_def)

text \<open>
  C1. For a ward-level boundary record (admin level 9), the name is matched against the
  script's pattern \<^verbatim>\<open>^(.+)-(\d+)$\<close>, whose \<^verbatim>\<open>$\<close> also accepts one newline at the very end:
  the name is read without it. When what is left has the shape
  \<^verbatim>\<open><municipality>-<digits>\<close>, the resolved hierarchy has the part before the final hyphen
  as municipality, and as ward the trailing digits read as an integer in base ten,
  provided \<^verbatim>\<open>int\<close> accepts them: beyond the interpreter's limit on the number of digits
  the ward stays unset and the municipality is set all the same. In particular digits that
  are the decimal text of a number give that number. For any other name both stay unset.
\<close>

theorem ward_name_parsing:
  assumes "ab_admin_level b = Some 9" and "ab_name b = Some name"
  shows "\<exists>h. build_admin_hierarchy e (boundary_row e b) = Inr h \<and>
     (if ward_pattern e (strip_final_newline name)
      then dict_get h ''municipality'' = PStr (before_last_hyphen (strip_final_newline name))
         \<and> dict_get h ''ward'' =
             (if int_max_str_digits e = 0
                 \<or> length (after_last_hyphen (strip_final_newline name)) \<le> int_max_str_digits e
              then PInt (int (positional_value (decimal_of e)
                                (after_last_hyphen (strip_final_newline name))))
              else PNone)
         \<and> (\<forall>n. after_last_hyphen (strip_final_newline name) = lit (nat_text n)
                \<and> (int_max_str_digits e = 0 \<or> length (nat_text n) \<le> int_max_str_digits e)
              \<longrightarrow> dict_get h ''ward'' = PInt (int n))
      else dict_get h ''municipality'' = PNone \<and> dict_get h ''ward'' = PNone)"
  unfolding build_admin_hierarchy_ward[OF assms(1)]
  using assms(2)
  by (auto simp: with_parent_district_province_keeps dict_get_dict_set dict_get_empty_hierarchy
      Let_def positional_value_nat_text)

text \<open>
  The two names of the specification, \<^verbatim>\<open>Kathmandu-05\<close> and \<^verbatim>\<open>NoPattern\<close>; the same ward
  written in Devanagari with the digits of that script; and \<^verbatim>\<open>Kathmandu-05\<close> followed
  by a newline.
\<close>

theorem ward_name_parsing_witness:
  "ab_admin_level ward_kathmandu_05 = Some 9
   \<and> ab_name ward_kathmandu_05 = Some (lit ''Kathmandu-05'')
   \<and> (\<exists>h. build_admin_hierarchy example_env (boundary_row example_env ward_kathmandu_05) = Inr h
         \<and> dict_get h ''municipality'' = PStr (lit ''Kathmandu'') \<and> dict_get h ''ward'' = PInt 5)
   \<and> ab_admin_level ward_nopattern = Some 9 \<and> ab_name ward_nopattern = Some (lit ''NoPattern'')
   \<and> (\<exists>h. build_admin_hierarchy example_env (boundary_row example_env ward_nopattern) = Inr h
         \<and> dict_get h ''municipality'' = PNone \<and> dict_get h ''ward'' = PNone)
   \<and> ab_admin_level ward_devanagari = Some 9
   \<and> ab_name ward_devanagari = Some (kathmandu_devanagari @ [hyphen, 0x0966, 0x096B])
   \<and> (\<exists>h. build_admin_hierarchy example_env (boundary_row example_env ward_devanagari) = Inr h
         \<and> dict_get h ''municipality'' = PStr kathmandu_devanagari \<and> dict_get h ''ward'' = PInt 5)
   \<and> ab_admin_level ward_final_newline = Some 9
   \<and> ab_name ward_final_newline = Some (lit ''Kathmandu-05'' @ [newline])
   \<and> (\<exists>h. build_admin_hierarchy example_env (boundary_row example_env ward_final_newline) = Inr h
         \<and> dict_get h ''municipality'' = PStr (lit ''Kathmandu'') \<and> dict_get h ''ward'' = PInt 5)"
proof -
  have lim: "int_max_str_digits example_env = 4300" by (simp add: example_env_def)
  have k: "lit ''Kathmandu'' \<noteq> []" "lit ''05'' \<noteq> []" by simp_all
  have d: "kathmandu_devanagari \<noteq> []" by (simp add: kathmandu_devanagari_def)
  note p1 = ward_pattern_parts[OF k(1) kathmandu_one_line k(2) example_digits(1)]
  note p3 = ward_pattern_parts[OF d kathmandu_devanagari_one_line _ example_digits(2)]
  have a1: "ab_admin_level ward_kathmandu_05 = Some 9"
      "ab_name ward_kathmandu_05 = Some (lit ''Kathmandu-05'')"
    by (simp_all add: ward_kathmandu_05_def)
  have a2: "ab_admin_level ward_nopattern = Some 9"
      "ab_name ward_nopattern = Some (lit ''NoPattern'')"
    by (simp_all add: ward_nopattern_def)
  have a3: "ab_admin_level ward_devanagari = Some 9"
      "ab_name ward_devanagari = Some (kathmandu_devanagari @ [hyphen, 0x0966, 0x096B])"
    by (simp_all add: ward_devanagari_def)
  have a4: "ab_admin_level ward_final_newline = Some 9"
      "ab_name ward_final_newline = Some (lit ''Kathmandu-05'' @ [newline])"
    by (simp_all add: ward_final_newline_def)
  have w1: "\<exists>h. build_admin_hierarchy example_env (boundary_row example_env ward_kathmandu_05) = Inr h
         \<and> dict_get h ''municipality'' = PStr (lit ''Kathmandu'') \<and> dict_get h ''ward'' = PInt 5"
    using ward_name_parsing[OF a1, of example_env] p1
    by (auto simp: kathmandu_05_parts lim example_digit_values)
  have w2: "\<exists>h. build_admin_hierarchy example_env (boundary_row example_env ward_nopattern) = Inr h
         \<and> dict_get h ''municipality'' = PNone \<and> dict_get h ''ward'' = PNone"
    using ward_name_parsing[OF a2, of example_env] nopattern_not_ward[of example_env]
    by simp
  have w3: "\<exists>h. build_admin_hierarchy example_env (boundary_row example_env ward_devanagari) = Inr h
         \<and> dict_get h ''municipality'' = PStr kathmandu_devanagari \<and> dict_get h ''ward'' = PInt 5"
    using ward_name_parsing[OF a3, of example_env] p3
    by (auto simp: lim example_digit_values)
  have w4: "\<exists>h. build_admin_hierarchy example_env (boundary_row example_env ward_final_newline) = Inr h
         \<and> dict_get h ''municipality'' = PStr (lit ''Kathmandu'') \<and> dict_get h ''ward'' = PInt 5"
    using ward_name_parsing[OF a4, of example_env] p1
    by (auto simp: kathmandu_05_parts lim example_digit_values)
  show ?thesis using a1 a2 a3 a4 w1 w2 w3 w4 by blast
qed

text \<open>
  C1 as stated fails on two names. A name that has the shape with more digits than
  \<^verbatim>\<open>int\<close> reads: with the default limit of 4300 and 4301 digits after the hyphen, the
  municipality is set and the ward is not. And \<^verbatim>\<open>Kathmandu-05\<close> followed by a newline,
  which does not have the shape (what follows its final hyphen is not a run of digits):
  municipality and ward are set all the same.
\<close>

theorem ward_name_shape_counterexample:
  "ab_admin_level ward_long_digits = Some 9
   \<and> ab_name ward_long_digits = Some (lit ''Kathmandu'' @ hyphen # replicate 4301 49)
   \<and> ward_pattern example_env (lit ''Kathmandu'' @ hyphen # replicate 4301 49)
   \<and> int_max_str_digits example_env = 4300
   \<and> build_admin_hierarchy example_env (boundary_row example_env ward_long_digits) =
       Inr [(''ward'', PNone),
            (''municipality'', PStr (lit ''Kathmandu'')),
            (''municipality_ne'', PStr (lit ''Kathmandu'')),
            (''district'', PNone), (''district_ne'', PNone),
            (''province'', PNone), (''province_ne'', PNone)]
   \<and> ab_admin_level ward_final_newline = Some 9
   \<and> ab_name ward_final_newline = Some (lit ''Kathmandu-05'' @ [newline])
   \<and> \<not> ward_pattern example_env (lit ''Kathmandu-05'' @ [newline])
   \<and> build_admin_hierarchy example_env (boundary_row example_env ward_final_newline) =
       Inr [(''ward'', PInt 5),
            (''municipality'', PStr (lit ''Kathmandu'')),
            (''municipality_ne'', PStr (lit ''Kathmandu'')),
            (''district'', PNone), (''district_ne'', PNone),
            (''province'', PNone), (''province_ne'', PNone)]"
proof -
  have lim: "int_max_str_digits example_env = 4300" by (simp add: example_env_def)
  have k: "lit ''Kathmandu'' \<noteq> []" "replicate 4301 (49::nat) \<noteq> []" "lit ''05'' \<noteq> []"
    by simp_all
  note p = ward_pattern_parts[OF k(1) kathmandu_one_line k(2) example_digits(3)]
  note q = ward_pattern_parts[OF k(1) kathmandu_one_line k(3) example_digits(1)]
  have a: "ab_admin_level ward_long_digits = Some 9"
      "ab_name ward_long_digits = Some (lit ''Kathmandu'' @ hyphen # replicate 4301 49)"
      "ab_centroid ward_long_digits = None"
    by (simp_all add: ward_long_digits_def)
  have b: "ab_admin_level ward_final_newline = Some 9"
      "ab_name ward_final_newline = Some (lit ''Kathmandu-05'' @ [newline])"
      "ab_centroid ward_final_newline = None"
    by (simp_all add: ward_final_newline_def)
  have h1: "build_admin_hierarchy example_env (boundary_row example_env ward_long_digits) =
       Inr [(''ward'', PNone),
            (''municipality'', PStr (lit ''Kathmandu'')),
            (''municipality_ne'', PStr (lit ''Kathmandu'')),
            (''district'', PNone), (''district_ne'', PNone),
            (''province'', PNone), (''province_ne'', PNone)]"
    unfolding build_admin_hierarchy_ward[OF a(1)]
    using p
    by (simp add: a lim with_parent_district_province_def sql_text_def empty_hierarchy_def)
  have h2: "build_admin_hierarchy example_env (boundary_row example_env ward_final_newline) =
       Inr [(''ward'', PInt 5),
            (''municipality'', PStr (lit ''Kathmandu'')),
            (''municipality_ne'', PStr (lit ''Kathmandu'')),
            (''district'', PNone), (''district_ne'', PNone),
            (''province'', PNone), (''province_ne'', PNone)]"
    unfolding build_admin_hierarchy_ward[OF b(1)]
    using q
    by (simp add: b lim kathmandu_05_parts example_digit_values
        with_parent_district_province_def sql_text_def empty_hierarchy_def)
  show ?thesis using a(1,2) p(3) lim h1 b(1,2) final_newline_not_shape h2 by blast
qed

text \<open>
  C6. For every record of every entity type, tags that are a string the JSON parser rejects
  never raise and never stop the document from being built: the tags become the empty
  dict and \<^verbatim>\<open>name_en\<close> is the record's default name.
\<close>

theorem malformed_tags_never_raise:
  assumes "json_loads e s = None"
  shows "parse_tags e (PStr s) = PDict []
    \<and> (pl_tags p = PStr s \<longrightarrow>
         (\<exists>d. place_doc e (place_row p) = Inr d \<and> doc_field d ''name_en'' = sql_text (pl_name p)))
    \<and> (ab_tags b = PStr s \<longrightarrow>
         (\<exists>d. boundary_doc e (boundary_row e b) = Inr d
              \<and> doc_field d ''name_en'' = sql_text (ab_name b)))
    \<and> (poi_tags q = PStr s \<longrightarrow>
         (\<exists>d. poi_doc e (poi_row q) = Inr d \<and> doc_field d ''name_en'' = sql_text (poi_name q)
              \<and> doc_field d ''tags'' = PDict []))
    \<and> (rd_tags r = PStr s \<longrightarrow>
         (\<exists>d. road_doc e (road_row r) = Inr d \<and> doc_field d ''name_en'' = sql_text (rd_name r)))"
proof -
  have t: "parse_tags e (PStr s) = PDict []" using assms by (rule parse_tags_malformed)
  have "\<exists>d. place_doc e (place_row p) = Inr d \<and> doc_field d ''name_en'' = sql_text (pl_name p)"
    if "pl_tags p = PStr s"
    using place_doc_eval[of e p "[]"] t that
    by (auto simp: doc_field_simps dict_get_def dict_get_default_def)
  moreover have "\<exists>d. boundary_doc e (boundary_row e b) = Inr d
              \<and> doc_field d ''name_en'' = sql_text (ab_name b)"
    if "ab_tags b = PStr s"
    using boundary_doc_eval[of e b "[]"] t that
    by (auto simp: doc_field_simps dict_get_def dict_get_default_def)
  moreover have "\<exists>d. poi_doc e (poi_row q) = Inr d \<and> doc_field d ''name_en'' = sql_text (poi_name q)
              \<and> doc_field d ''tags'' = PDict []"
    if "poi_tags q = PStr s"
    using poi_doc_eval[of e q "[]"] t that
    by (auto simp: doc_field_simps dict_get_def dict_get_default_def)
  moreover have "\<exists>d. road_doc e (road_row r) = Inr d \<and> doc_field d ''name_en'' = sql_text (rd_name r)"
    if "rd_tags r = PStr s"
    using road_doc_eval[of e r "[]"] t that
    by (auto simp: doc_field_simps dict_get_def dict_get_default_def)
  ultimately show ?thesis using t by blast
qed

text \<open>On the example records, whose tags are the text \<^verbatim>\<open>not json\<close>.\<close>

theorem malformed_tags_never_raise_witness:
  "json_loads example_env (lit ''not json'') = None
   \<and> pl_tags pokhara = PStr (lit ''not json'')
   \<and> (\<exists>d. place_doc example_env (place_row pokhara) = Inr d
         \<and> doc_field d ''name_en'' = PStr (lit ''Pokhara''))
   \<and> ab_tags ward_kathmandu_05 = PStr (lit ''not json'')
   \<and> (\<exists>d. boundary_doc example_env (boundary_row example_env ward_kathmandu_05) = Inr d
         \<and> doc_field d ''name_en'' = PStr (lit ''Kathmandu-05''))
   \<and> poi_tags lakeside_cafe = PStr (lit ''not json'')
   \<and> (\<exists>d. poi_doc example_env (poi_row lakeside_cafe) = Inr d
         \<and> doc_field d ''name_en'' = PStr (lit ''Lakeside Cafe'') \<and> doc_field d ''tags'' = PDict [])
   \<and> rd_tags prithvi_highway = PStr (lit ''not json'')
   \<and> (\<exists>d. road_doc example_env (road_row prithvi_highway) = Inr d
         \<and> doc_field d ''name_en'' = PStr (lit ''Prithvi Highway''))"
proof -
  have j: "json_loads example_env (lit ''not json'') = None" by (simp add: example_env_def)
  show ?thesis
    using malformed_tags_never_raise[OF j, of pokhara ward_kathmandu_05 lakeside_cafe prithvi_highway] j
    by (simp add: pokhara_def ward_kathmandu_05_def lakeside_cafe_def prithvi_highway_def sql_text_def)
qed

text \<open>
  C10. For every place record, the fields \<^verbatim>\<open>municipality_ne\<close>, \<^verbatim>\<open>district_ne\<close> and
  \<^verbatim>\<open>province_ne\<close> of the document are the record's default municipality, district and
  province, the same values as the fields without the suffix.
\<close>

theorem place_localized_fields_copy_default:
  assumes "place_doc e row = Inr d"
  shows "doc_field d ''municipality_ne'' = dict_get row ''municipality''
       \<and> doc_field d ''district_ne'' = dict_get row ''district''
       \<and> doc_field d ''province_ne'' = dict_get row ''province''
       \<and> doc_field d ''municipality_ne'' = doc_field d ''municipality''
       \<and> doc_field d ''district_ne'' = doc_field d ''district''
       \<and> doc_field d ''province_ne'' = doc_field d ''province''"
  using assms
  by (auto simp: place_doc_def bind_Inr_iff doc_field_simps Let_def) (simp_all add: dict_get_def)

text \<open>On the example place.\<close>

theorem place_localized_fields_copy_default_witness:
  "\<exists>d. place_doc example_env (place_row pokhara) = Inr d
     \<and> doc_field d ''municipality_ne'' = PNone
     \<and> doc_field d ''district_ne'' = PStr (lit ''Kaski'')
     \<and> doc_field d ''province_ne'' = PStr (lit ''Gandaki'')"
proof -
  have t1: "parse_tags example_env (pl_tags pokhara) = PDict []"
    by (simp add: pokhara_def parse_tags_example_not_json)
  obtain d where d: "place_doc example_env (place_row pokhara) = Inr d"
    using place_doc_eval[OF t1] by blast
  show ?thesis
    using place_localized_fields_copy_default[OF d] d
    by (auto simp: dict_get_place_row pokhara_def sql_text_def)
qed

text \<open>The rows the parent query returns.\<close>

lemma parent_query_set:
  "(d, p) \<in> set (parent_query e pt) \<longleftrightarrow>
     d \<in> set (admin_boundaries e) \<and> p \<in> set (admin_boundaries e)
     \<and> ab_admin_level d = Some 6 \<and> ab_admin_level p = Some 4
     \<and> st_contains (ab_geom d) pt \<and> st_contains (ab_geom p) pt"
  unfolding parent_query_def by auto

lemma parent_query_empty:
  "parent_query e pt = [] \<longleftrightarrow>
     \<not> ((\<exists>d \<in> set (admin_boundaries e). ab_admin_level d = Some 6 \<and> st_contains (ab_geom d) pt)
        \<and> (\<exists>p \<in> set (admin_boundaries e). ab_admin_level p = Some 4 \<and> st_contains (ab_geom p) pt))"
proof -
  have "parent_query e pt = [] \<longleftrightarrow> (\<forall>d p. (d, p) \<notin> set (parent_query e pt))"
    by (cases "parent_query e pt") auto
  then show ?thesis unfolding parent_query_set by blast
qed

text \<open>
  C9. The parent lookup resolves both ancestors or none: it returns a row exactly when the
  centroid text reads as a point that some level-6 polygon contains and some level-4
  polygon contains, and the row then carries the names of such a district and such a
  province; a point inside a district and inside no province, or the reverse, gives
  nothing.
\<close>

theorem parent_lookup_all_or_nothing:
  "(get_parent_admin e (PStr c) \<noteq> None \<longleftrightarrow>
      (\<exists>pt. st_geomfromtext e c = Some pt
         \<and> (\<exists>d \<in> set (admin_boundaries e). ab_admin_level d = Some 6 \<and> st_contains (ab_geom d) pt)
         \<and> (\<exists>p \<in> set (admin_boundaries e). ab_admin_level p = Some 4 \<and> st_contains (ab_geom p) pt)))
   \<and> (\<forall>r. get_parent_admin e (PStr c) = Some r \<longrightarrow>
      (\<exists>pt. st_geomfromtext e c = Some pt \<and>
        (\<exists>d \<in> set (admin_boundaries e). \<exists>p \<in> set (admin_boundaries e).
           ab_admin_level d = Some 6 \<and> st_contains (ab_geom d) pt
         \<and> ab_admin_level p = Some 4 \<and> st_contains (ab_geom p) pt
         \<and> dict_get r ''district'' = sql_text (ab_name d)
         \<and> dict_get r ''province'' = sql_text (ab_name p))))"
proof (cases "st_geomfromtext e c")
  case None
  then show ?thesis by (simp add: get_parent_admin_def)
next
  case (Some pt)
  show ?thesis
  proof (cases "parent_query e pt")
    case Nil
    then show ?thesis
      using Some parent_query_empty[of e pt] by (simp add: get_parent_admin_def)
  next
    case (Cons dp rest)
    obtain d p where dp: "dp = (d, p)" by (cases dp)
    have m: "(d, p) \<in> set (parent_query e pt)" using Cons dp by simp
    have ne: "parent_query e pt \<noteq> []" using Cons by simp
    have r: "get_parent_admin e (PStr c) = Some (parent_row (d, p))"
      using Some Cons dp by (simp add: get_parent_admin_def)
    have f: "dict_get (parent_row (d, p)) ''district'' = sql_text (ab_name d)"
       "dict_get (parent_row (d, p)) ''province'' = sql_text (ab_name p)"
      by (simp_all add: parent_row_def dict_get_def)
    show ?thesis
      using m ne r f Some unfolding parent_query_set parent_query_empty by auto
  qed
qed

text \<open>With both example polygons the lookup answers; with the district alone, which
  contains the point, it answers nothing.\<close>

theorem parent_lookup_all_or_nothing_witness:
  "get_parent_admin example_env (PStr (lit ''POINT'')) \<noteq> None
   \<and> get_parent_admin district_only_env (PStr (lit ''POINT'')) = None
   \<and> (\<exists>d \<in> set (admin_boundaries district_only_env).
         ab_admin_level d = Some 6 \<and> st_contains (ab_geom d) (84, 28.2))"
  using parent_lookup_all_or_nothing[of example_env "lit ''POINT''"]
    parent_lookup_all_or_nothing[of district_only_env "lit ''POINT''"]
  by (simp add: example_env_def district_only_env_def gandaki_def kaski_def ward_kathmandu_05_def
      ward_nopattern_def st_contains_def)

text \<open>The search for the mapping file, and the handler for a missing file, which no
  run reaches: a path the search returns has a file, and no path at all is a TypeError.\<close>

lemma find_mapping_path_None:
  "find_mapping_path e = None \<longleftrightarrow> (\<forall>p \<in> set (mapping_paths e). files e p = None)"
  by (auto simp: find_mapping_path_def find_None_iff)

lemma find_mapping_path_Some:
  "find_mapping_path e = Some p \<Longrightarrow> files e p \<noteq> None"
  unfolding find_mapping_path_def by (auto simp: find_Some_iff)

lemma default_mapping_unreachable:
  "events (snd (load_mapping e st)) = events st"
proof (cases "find_mapping_path e")
  case None
  then show ?thesis by (simp add: load_mapping_def py_open_def)
next
  case (Some p)
  then obtain c where "files e p = Some c" using find_mapping_path_Some by fastforce
  then show ?thesis using Some
    by (simp add: load_mapping_def py_open_def split: option.splits)
qed

lemma create_index_no_path:
  assumes "find_mapping_path e = None"
  shows "create_index e st = (Inl TypeError, st)"
proof -
  have "load_mapping e st = (Inl TypeError, st)"
    using assms by (simp add: load_mapping_def py_open_def)
  then show ?thesis by (simp add: create_index_def then_do_def)
qed

text \<open>
  C4. When no mapping file exists at any candidate path, index creation is said to fall
  back to the built-in default mapping, log a warning and create the index. The script
  does not: the search leaves the path at None, \<^verbatim>\<open>open(None, 'r')\<close> raises TypeError,
  which the handler for FileNotFoundError does not catch, so \<^verbatim>\<open>create_index\<close>
  raises and changes nothing.
\<close>

theorem create_index_without_mapping_file:
  assumes "\<forall>p \<in> set (mapping_paths e). files e p = None"
  shows "create_index e st = (Inl TypeError, st)"
  using assms by (simp add: create_index_no_path find_mapping_path_None)

text \<open>In the example environment without mapping files.\<close>

theorem create_index_without_mapping_file_witness:
  "list_all (\<lambda>p. files no_mapping_env p = None) (mapping_paths no_mapping_env)
   \<and> create_index no_mapping_env initial_state = (Inl TypeError, initial_state)"
  using create_index_without_mapping_file[of no_mapping_env initial_state]
  by (simp add: no_mapping_env_def example_env_def mapping_paths_def)

text \<open>The whole run then ends with status 1 after connecting, with no index created.\<close>

lemma sync_all_without_mapping_file:
  "sync_all no_mapping_env initial_state =
     (1, \<lparr>events = [Connected, SyncFailed TypeError], index_mapping = None, streamed = [],
          conn_open = False\<rparr>)"
proof -
  have c: "connect_db no_mapping_env initial_state =
      (Inr (), \<lparr>events = [Connected], index_mapping = None, streamed = [], conn_open = True\<rparr>)"
    by (simp add: connect_db_def no_mapping_env_def example_env_def initial_state_def)
  have "\<forall>p \<in> set (mapping_paths no_mapping_env). files no_mapping_env p = None"
    by (simp add: no_mapping_env_def example_env_def)
  then have "find_mapping_path no_mapping_env = None"
    by (simp only: find_mapping_path_None)
  then have "create_index no_mapping_env
       \<lparr>events = [Connected], index_mapping = None, streamed = [], conn_open = True\<rparr>
     = (Inl TypeError, \<lparr>events = [Connected], index_mapping = None, streamed = [], conn_open = True\<rparr>)"
    by (rule create_index_no_path)
  then show ?thesis
    using c by (simp add: sync_all_def sync_all_body_def then_do_def)
qed

text \<open>The search text of a place and of a boundary, from the fields of the row each
  builder passes to \<^verbatim>\<open>_build_search_text\<close>.\<close>

lemma place_search_text:
  assumes "place_doc e (place_row p) = Inr d"
  shows "doc_field d ''search_text'' =
     PStr (intersperse_str (lit '' '')
       (nonempty_values [pl_name p, pl_name_ne p, pl_municipality p, pl_district p, pl_province p]))"
proof -
  obtain kvs where "parse_tags e (pl_tags p) = PDict kvs"
    using place_doc_Inr_tags[OF assms] by blast
  from place_doc_eval[OF this] assms show ?thesis
    by (auto simp: doc_field_simps dict_get_def build_search_text_place_row)
qed

lemma pokhara_search_text:
  "\<exists>d. place_doc example_env (place_row pokhara) = Inr d
     \<and> doc_field d ''search_text'' = PStr (lit ''Pokhara Kaski Gandaki'')"
proof -
  have t1: "parse_tags example_env (pl_tags pokhara) = PDict []"
    by (simp add: pokhara_def parse_tags_example_not_json)
  obtain d where d: "place_doc example_env (place_row pokhara) = Inr d"
    using place_doc_eval[OF t1] by blast
  show ?thesis using place_search_text[OF d] d
    by (simp add: pokhara_def nonempty_values_def lit_append[symmetric])
qed

lemma boundary_search_text:
  assumes "boundary_doc e (boundary_row e b) = Inr d"
  shows "doc_field d ''search_text'' =
     PStr (intersperse_str (lit '' '') (nonempty_values [ab_name b, ab_name_ne b]))"
proof -
  obtain kvs where "parse_tags e (ab_tags b) = PDict kvs"
    using boundary_doc_Inr_tags[OF assms] by blast
  from boundary_doc_eval[OF this] assms show ?thesis
    by (auto simp: doc_field_simps dict_get_def build_search_text_boundary_row)
qed

lemma example_parent:
  "get_parent_admin example_env (PStr (lit ''POINT'')) = Some (parent_row (kaski, gandaki))"
  by (simp add: get_parent_admin_def example_env_def parent_query_def gandaki_def kaski_def
      ward_kathmandu_05_def ward_nopattern_def st_contains_def)

lemma ward_nopattern_hierarchy:
  "build_admin_hierarchy example_env (boundary_row example_env ward_nopattern) =
     Inr [(''ward'', PNone), (''municipality'', PNone), (''municipality_ne'', PNone),
          (''district'', PStr (lit ''Kaski'')), (''district_ne'', PNone),
          (''province'', PStr (lit ''Gandaki'')), (''province_ne'', PNone)]"
proof -
  have l: "ab_admin_level ward_nopattern = Some 9" by (simp add: ward_nopattern_def)
  have c: "sql_text (map_option (st_astext example_env) (ab_centroid ward_nopattern)) = PStr (lit ''POINT'')"
    by (simp add: ward_nopattern_def example_env_def sql_text_def)
  have n: "\<not> ward_pattern example_env (strip_final_newline (lit ''NoPattern''))"
    by (rule nopattern_not_ward)
  show ?thesis
    unfolding build_admin_hierarchy_ward[OF l] c
    using n
    by (simp add: ward_nopattern_def with_parent_district_province_def example_parent
        parent_row_def empty_hierarchy_def dict_get_def sql_text_def kaski_def gandaki_def)
qed

text \<open>
  C2. The search text is said to join the non-empty values among name, localized name,
  municipality, district and province. That holds for a place (\<open>place_search_text\<close>,
  \<open>pokhara_search_text\<close>). A boundary row has no municipality, district or province
  column, and the boundary builder passes the row, not the resolved hierarchy: for the
  ward named \<^verbatim>\<open>NoPattern\<close>, resolved to district Kaski and province Gandaki, the
  search text is the bare name.
\<close>

theorem ward_search_text_omits_hierarchy:
  "\<exists>d. boundary_doc example_env (boundary_row example_env ward_nopattern) = Inr d
     \<and> doc_field d ''name'' = PStr (lit ''NoPattern'')
     \<and> doc_field d ''name_ne'' = PNone
     \<and> doc_field d ''municipality'' = PNone
     \<and> doc_field d ''district'' = PStr (lit ''Kaski'')
     \<and> doc_field d ''province'' = PStr (lit ''Gandaki'')
     \<and> doc_field d ''search_text'' = PStr (lit ''NoPattern'')"
proof -
  have t: "parse_tags example_env (ab_tags ward_nopattern) = PDict []"
    by (simp add: ward_nopattern_def parse_tags_None)
  from boundary_doc_eval[OF t] show ?thesis
    unfolding ward_nopattern_hierarchy build_search_text_boundary_row
    by (auto simp: doc_field_simps dict_get_def ward_nopattern_def sql_text_def nonempty_values_def)
qed

text \<open>
  C7. The location is said to be set exactly when the geometry yields coordinates. The
  builders test the latitude for truth, and the float 0.0 is false: a place on the
  equator has both coordinates and no location.
\<close>

theorem equator_place_has_no_location:
  "dict_get (place_row equator_place) ''lat'' = PFloat 0
   \<and> dict_get (place_row equator_place) ''lon'' = PFloat 85.3
   \<and> (\<exists>d. place_doc example_env (place_row equator_place) = Inr d
         \<and> doc_field d ''location'' = PNone)"
proof -
  have t: "parse_tags example_env (pl_tags equator_place) = PDict []"
    by (simp add: equator_place_def parse_tags_None)
  have "dict_get (place_row equator_place) ''lat'' = PFloat 0"
       "dict_get (place_row equator_place) ''lon'' = PFloat 85.3"
    by (simp_all add: place_row_def dict_get_def equator_place_def sql_float_def)
  moreover have "\<exists>d. place_doc example_env (place_row equator_place) = Inr d
         \<and> doc_field d ''location'' = PNone"
    using place_doc_eval[OF t] unfolding location_of_place_row
    by (auto simp: doc_field_simps dict_get_def equator_place_def)
  ultimately show ?thesis by blast
qed

text \<open>What the place builder does: the location is set exactly when the geometry is
  not NULL and its latitude is not zero.\<close>

lemma place_location_set_iff:
  assumes "place_doc e (place_row p) = Inr d"
  shows "doc_field d ''location'' \<noteq> PNone \<longleftrightarrow> (\<exists>x y. pl_geom p = Some (x, y) \<and> y \<noteq> 0)"
proof -
  obtain kvs where "parse_tags e (pl_tags p) = PDict kvs"
    using place_doc_Inr_tags[OF assms] by blast
  from place_doc_eval[OF this] assms show ?thesis
    unfolding location_of_place_row
    by (auto simp: doc_field_simps dict_get_def split: option.splits)
qed

text \<open>The steps of a run on the example in which the query for places fails.\<close>

lemma then_do_Inl [simp]: "then_do (Inl err, st) f = (Inl err, st)"
  by (simp add: then_do_def)

lemma then_do_Inr [simp]: "then_do (Inr x, st) f = f x st"
  by (simp add: then_do_def)

lemma places_query_fails_connect:
  "connect_db places_query_fails_env initial_state =
     (Inr (), \<lparr>events = [Connected], index_mapping = None, streamed = [], conn_open = True\<rparr>)"
  by (simp add: connect_db_def places_query_fails_env_def example_env_def initial_state_def)

lemma places_query_fails_create_index:
  "create_index places_query_fails_env
     \<lparr>events = [Connected], index_mapping = None, streamed = [], conn_open = True\<rparr> =
     (Inr (), \<lparr>events = [Connected, IndexCreated], index_mapping = Some (PDict []),
               streamed = [], conn_open = True\<rparr>)"
  by (simp add: create_index_def load_mapping_def py_open_def find_mapping_path_def
      mapping_paths_def places_query_fails_env_def example_env_def)

lemma places_query_fails_sync_places:
  "sync_places places_query_fails_env
     \<lparr>events = [Connected, IndexCreated], index_mapping = Some (PDict []),
      streamed = [], conn_open = True\<rparr> =
     (Inl OperationalError, \<lparr>events = [Connected, IndexCreated], index_mapping = Some (PDict []),
               streamed = [], conn_open = True\<rparr>)"
  by (simp add: sync_places_def run_pipeline_def places_query_fails_env_def)

lemma generate_docs_all_built:
  assumes "\<And>row. row \<in> set rows \<Longrightarrow> \<exists>d. build row = Inr d"
  shows "snd (generate_docs build rows) = None \<and> length (fst (generate_docs build rows)) = length rows"
  using assms
proof (induction rows)
  case Nil
  show ?case by simp
next
  case (Cons row rows)
  obtain d where d: "build row = Inr d" using Cons.prems by auto
  have "snd (generate_docs build rows) = None \<and> length (fst (generate_docs build rows)) = length rows"
    using Cons by auto
  then show ?case using d by (cases "generate_docs build rows") simp
qed

lemma places_query_fails_boundaries:
  "select_admin_boundaries places_query_fails_env =
     map (boundary_row places_query_fails_env) [gandaki, kaski, ward_kathmandu_05, ward_nopattern]"
  by (simp add: select_admin_boundaries_def places_query_fails_env_def example_env_def gandaki_def
      kaski_def ward_kathmandu_05_def ward_nopattern_def)

lemma places_query_fails_boundary_docs:
  assumes "row \<in> set (select_admin_boundaries places_query_fails_env)"
  shows "\<exists>d. boundary_doc places_query_fails_env row = Inr d"
proof -
  obtain b where b: "row = boundary_row places_query_fails_env b"
      "b \<in> {gandaki, kaski, ward_kathmandu_05, ward_nopattern}"
    using assms unfolding places_query_fails_boundaries by auto
  have "parse_tags places_query_fails_env (ab_tags b) = PDict []"
    using b(2)
    by (auto simp: parse_tags_def places_query_fails_env_def example_env_def gandaki_def
      kaski_def ward_kathmandu_05_def ward_nopattern_def)
  from boundary_doc_eval[OF this] show ?thesis unfolding b(1) by blast
qed

lemma places_query_fails_sync_all:
  "sync_all places_query_fails_env initial_state =
     (1, \<lparr>events = [Connected, IndexCreated, SyncFailed OperationalError],
          index_mapping = Some (PDict []), streamed = [], conn_open = False\<rparr>)"
  by (simp add: sync_all_def sync_all_body_def places_query_fails_connect
      places_query_fails_create_index places_query_fails_sync_places)

text \<open>
  C5. An error raised inside one entity type's pipeline is said not to keep the remaining
  pipelines from running. The script has one \<^verbatim>\<open>try\<close> block around all four calls and
  no handler around any single one, so the claim as amended is: once the database is
  connected and the index created, an exception that leaves the \<^verbatim>\<open>sync_*\<close> method of
  one entity type ends the run there. The state that method left is the final state but
  for the logged failure and the closed connection, so no later pipeline has run, and the
  exit status is 1.
\<close>

theorem pipeline_error_aborts_run:
  assumes "connect_db e st0 = (Inr (), st1)" and "create_index e st1 = (Inr (), st2)"
  shows
    "(sync_places e st2 = (Inl err, st3) \<longrightarrow>
        sync_all e st0 = (1, st3\<lparr>events := events st3 @ [SyncFailed err], conn_open := False\<rparr>))
   \<and> (sync_places e st2 = (Inr n1, st3) \<and> sync_admin_boundaries e st3 = (Inl err, st4) \<longrightarrow>
        sync_all e st0 = (1, st4\<lparr>events := events st4 @ [SyncFailed err], conn_open := False\<rparr>))
   \<and> (sync_places e st2 = (Inr n1, st3) \<and> sync_admin_boundaries e st3 = (Inr n2, st4)
        \<and> sync_poi e st4 = (Inl err, st5) \<longrightarrow>
        sync_all e st0 = (1, st5\<lparr>events := events st5 @ [SyncFailed err], conn_open := False\<rparr>))
   \<and> (sync_places e st2 = (Inr n1, st3) \<and> sync_admin_boundaries e st3 = (Inr n2, st4)
        \<and> sync_poi e st4 = (Inr n3, st5) \<and> sync_roads e st5 = (Inl err, st6) \<longrightarrow>
        sync_all e st0 = (1, st6\<lparr>events := events st6 @ [SyncFailed err], conn_open := False\<rparr>))"
  using assms by (simp add: sync_all_def sync_all_body_def)

text \<open>The example run: the query for places raises OperationalError.\<close>

theorem pipeline_error_aborts_run_witness:
  "connect_db places_query_fails_env initial_state =
     (Inr (), \<lparr>events = [Connected], index_mapping = None, streamed = [], conn_open = True\<rparr>)
   \<and> create_index places_query_fails_env
     \<lparr>events = [Connected], index_mapping = None, streamed = [], conn_open = True\<rparr> =
     (Inr (), \<lparr>events = [Connected, IndexCreated], index_mapping = Some (PDict []),
               streamed = [], conn_open = True\<rparr>)
   \<and> sync_places places_query_fails_env
     \<lparr>events = [Connected, IndexCreated], index_mapping = Some (PDict []),
      streamed = [], conn_open = True\<rparr> =
     (Inl OperationalError, \<lparr>events = [Connected, IndexCreated], index_mapping = Some (PDict []),
               streamed = [], conn_open = True\<rparr>)
   \<and> sync_all places_query_fails_env initial_state =
     (1, \<lparr>events = [Connected, IndexCreated, SyncFailed OperationalError],
          index_mapping = Some (PDict []), streamed = [], conn_open = False\<rparr>)"
  using pipeline_error_aborts_run[OF places_query_fails_connect places_query_fails_create_index,
      of OperationalError "\<lparr>events = [Connected, IndexCreated], index_mapping = Some (PDict []),
               streamed = [], conn_open = True\<rparr>"]
    places_query_fails_connect places_query_fails_create_index places_query_fails_sync_places
  by simp

text \<open>
  C5 as stated fails on that run: the place pipeline raises, the boundary pipeline would
  deliver four documents from the same state, and the run ends with status 1, no
  document streamed and no line logged for boundaries, POI or roads.
\<close>

theorem pipeline_error_stops_later_pipelines:
  "fst (sync_places places_query_fails_env
     \<lparr>events = [Connected, IndexCreated], index_mapping = Some (PDict []),
      streamed = [], conn_open = True\<rparr>) = Inl OperationalError
   \<and> fst (sync_admin_boundaries places_query_fails_env
     \<lparr>events = [Connected, IndexCreated], index_mapping = Some (PDict []),
      streamed = [], conn_open = True\<rparr>) = Inr 4
   \<and> sync_all places_query_fails_env initial_state =
     (1, \<lparr>events = [Connected, IndexCreated, SyncFailed OperationalError],
          index_mapping = Some (PDict []), streamed = [], conn_open = False\<rparr>)"
proof -
  let ?g = "generate_docs (boundary_doc places_query_fails_env)
              (select_admin_boundaries places_query_fails_env)"
  have g: "snd ?g = None
      \<and> length (fst ?g) = length (select_admin_boundaries places_query_fails_env)"
    by (rule generate_docs_all_built) (rule places_query_fails_boundary_docs)
  have l: "length (select_admin_boundaries places_query_fails_env) = 4"
    unfolding places_query_fails_boundaries by simp
  obtain docs where docs: "?g = (docs, None)" "length docs = 4"
    using g unfolding l by (cases ?g) auto
  have acc: "filter (es_accepts places_query_fails_env) docs = docs"
    by (simp add: places_query_fails_env_def example_env_def)
  have q: "\<not> query_fails places_query_fails_env ''admin boundaries''"
    by (simp add: places_query_fails_env_def)
  have "fst (sync_admin_boundaries places_query_fails_env
     \<lparr>events = [Connected, IndexCreated], index_mapping = Some (PDict []),
      streamed = [], conn_open = True\<rparr>) = Inr 4"
    using docs acc q by (simp add: sync_admin_boundaries_def run_pipeline_def bulk_def)
  then show ?thesis
    by (simp add: places_query_fails_sync_places places_query_fails_sync_all)
qed

text \<open>The identifiers of the documents a generator yields are those of a prefix of its
  rows; the documents of a run are those of the pipelines that were started.\<close>

lemma dict_index_get: "dict_index row k = Inr v \<Longrightarrow> dict_get row k = v"
  by (auto simp: dict_index_def dict_get_def split: option.splits)

lemma doc_id_of_doc: "doc_id_of [(''_index'', i), (''_id'', j), (''_source'', s)] = j"
  by (simp add: doc_id_of_def dict_get_def)

lemma place_doc_id:
  "place_doc e row = Inr d \<Longrightarrow> doc_id_of d = dict_get row ''doc_id''"
  by (auto simp: place_doc_def bind_Inr_iff Let_def doc_id_of_doc dict_index_get)

lemma boundary_doc_id:
  "boundary_doc e row = Inr d \<Longrightarrow> doc_id_of d = dict_get row ''doc_id''"
  by (auto simp: boundary_doc_def bind_Inr_iff Let_def doc_id_of_doc dict_index_get)

lemma poi_doc_id:
  "poi_doc e row = Inr d \<Longrightarrow> doc_id_of d = dict_get row ''doc_id''"
  by (auto simp: poi_doc_def bind_Inr_iff Let_def doc_id_of_doc dict_index_get)

lemma road_doc_id:
  "road_doc e row = Inr d \<Longrightarrow> doc_id_of d = dict_get row ''doc_id''"
  by (auto simp: road_doc_def bind_Inr_iff Let_def doc_id_of_doc dict_index_get)

lemma generate_docs_ids:
  assumes "\<And>row d. build row = Inr d \<Longrightarrow> doc_id_of d = f row"
  shows "\<exists>k. map doc_id_of (fst (generate_docs build rows)) = take k (map f rows)"
proof (induction rows)
  case Nil
  show ?case by simp
next
  case (Cons row rows)
  then obtain k where k: "map doc_id_of (fst (generate_docs build rows)) = take k (map f rows)"
    by blast
  show ?case
  proof (cases "build row")
    case (Inl err)
    then have "map doc_id_of (fst (generate_docs build (row # rows))) = take 0 (map f (row # rows))"
      by simp
    then show ?thesis by blast
  next
    case (Inr d)
    then have "map doc_id_of (fst (generate_docs build (row # rows)))
        = take (Suc k) (map f (row # rows))"
      using k assms[OF Inr] by (cases "generate_docs build rows") simp
    then show ?thesis by blast
  qed
qed

lemma run_pipeline_streamed:
  "streamed (snd (run_pipeline e label build rows st)) =
     streamed st @ (if query_fails e label then [] else fst (generate_docs build rows))"
  by (cases "generate_docs build rows")
     (auto simp: run_pipeline_def split: option.splits prod.splits)

lemma connect_db_streamed: "streamed (snd (connect_db e st)) = streamed st"
  by (simp add: connect_db_def)

lemma create_index_streamed: "streamed (snd (create_index e st)) = streamed st"
  by (auto simp: create_index_def load_mapping_def then_do_def Let_def
      split: sum.splits error.splits option.splits)

lemma sync_places_streamed:
  "streamed (snd (sync_places e st)) = streamed st @ place_docs e"
  by (simp add: sync_places_def run_pipeline_streamed place_docs_def)

lemma sync_admin_boundaries_streamed:
  "streamed (snd (sync_admin_boundaries e st)) = streamed st @ boundary_docs e"
  by (simp add: sync_admin_boundaries_def run_pipeline_streamed boundary_docs_def)

lemma sync_poi_streamed:
  "streamed (snd (sync_poi e st)) = streamed st @ poi_docs e"
  by (simp add: sync_poi_def run_pipeline_streamed poi_docs_def)

lemma sync_roads_streamed:
  "streamed (snd (sync_roads e st)) = streamed st @ road_docs e"
  by (simp add: sync_roads_def run_pipeline_streamed road_docs_def)

lemma then_do_streamed_in:
  assumes "streamed (snd m) \<in> S"
    and "\<And>x st. m = (Inr x, st) \<Longrightarrow> streamed (snd (f x st)) \<in> S"
  shows "streamed (snd (then_do m f)) \<in> S"
  using assms by (cases m; cases "fst m") (auto simp: then_do_def)

lemma sync_all_body_streamed:
  "streamed (snd (sync_all_body e st0)) \<in>
     {streamed st0,
      streamed st0 @ place_docs e,
      streamed st0 @ place_docs e @ boundary_docs e,
      streamed st0 @ place_docs e @ boundary_docs e @ poi_docs e,
      streamed st0 @ place_docs e @ boundary_docs e @ poi_docs e @ road_docs e}"
  unfolding sync_all_body_def
proof (rule then_do_streamed_in, goal_cases)
  case 1
  show ?case by (simp add: connect_db_streamed)
next
  case (2 x1 st1)
  have e1: "streamed st1 = streamed st0" using connect_db_streamed[of e st0] 2 by simp
  show ?case
  proof (rule then_do_streamed_in, goal_cases)
    case 1
    show ?case by (simp add: create_index_streamed e1)
  next
    case (2 x2 st2)
    have e2: "streamed st2 = streamed st0" using create_index_streamed[of e st1] 2 e1 by simp
    show ?case
    proof (rule then_do_streamed_in, goal_cases)
      case 1
      show ?case by (simp add: sync_places_streamed e2)
    next
      case (2 x3 st3)
      have e3: "streamed st3 = streamed st0 @ place_docs e"
        using sync_places_streamed[of e st2] 2 e2 by simp
      show ?case
      proof (rule then_do_streamed_in, goal_cases)
        case 1
        show ?case by (simp add: sync_admin_boundaries_streamed e3)
      next
        case (2 x4 st4)
        have e4: "streamed st4 = streamed st0 @ place_docs e @ boundary_docs e"
          using sync_admin_boundaries_streamed[of e st3] 2 e3 by simp
        show ?case
        proof (rule then_do_streamed_in, goal_cases)
          case 1
          show ?case by (simp add: sync_poi_streamed e4)
        next
          case (2 x5 st5)
          have e5: "streamed st5 = streamed st0 @ place_docs e @ boundary_docs e @ poi_docs e"
            using sync_poi_streamed[of e st4] 2 e4 by simp
          show ?case
          proof (rule then_do_streamed_in, goal_cases)
            case 1
            show ?case by (simp add: sync_roads_streamed e5)
          next
            case (2 x6 st6)
            have e6: "streamed st6 =
                streamed st0 @ place_docs e @ boundary_docs e @ poi_docs e @ road_docs e"
              using sync_roads_streamed[of e st5] 2 e5 by simp
            show ?case by (simp add: e6)
          qed
        qed
      qed
    qed
  qed
qed

lemma sync_all_streamed:
  "streamed (snd (sync_all e st0)) = streamed (snd (sync_all_body e st0))"
  by (cases "sync_all_body e st0"; cases "fst (sync_all_body e st0)") (auto simp: sync_all_def)


lemma distinct_prefixed_ids:
  assumes "distinct (map idf xs)"
  shows "distinct (map (\<lambda>x. PStr (lit (pre @ int_text (idf x)))) (filter Q xs))"
proof -
  have d: "distinct (map idf (filter Q xs))" using assms by (rule distinct_map_filter)
  have "inj (\<lambda>i. PStr (lit (pre @ int_text i)))"
    by (rule injI) (simp add: int_text_inj)
  then have "inj_on (\<lambda>i. PStr (lit (pre @ int_text i))) (set (map idf (filter Q xs)))"
    by (rule inj_on_subset) simp
  then have "distinct (map (\<lambda>i. PStr (lit (pre @ int_text i))) (map idf (filter Q xs)))"
    using d by (simp only: distinct_map)
  then show ?thesis by (simp add: comp_def)
qed

lemma select_places_ids:
  "map (\<lambda>row. dict_get row ''doc_id'') (select_places e) =
     map (\<lambda>p. PStr (lit (''place_'' @ int_text (pl_id p)))) (filter (\<lambda>p. pl_name p \<noteq> None) (places e))"
  by (simp add: select_places_def place_row_def dict_get_def comp_def)

lemma select_admin_boundaries_ids:
  "map (\<lambda>row. dict_get row ''doc_id'') (select_admin_boundaries e) =
     map (\<lambda>b. PStr (lit (''admin_'' @ int_text (ab_id b))))
       (filter (\<lambda>b. ab_name b \<noteq> None \<and> ab_admin_level b \<in> {Some 4, Some 6, Some 7, Some 9})
          (admin_boundaries e))"
  by (simp add: select_admin_boundaries_def boundary_row_def dict_get_def comp_def)

lemma select_poi_ids:
  "map (\<lambda>row. dict_get row ''doc_id'') (select_poi e) =
     take 50000 (map (\<lambda>p. PStr (lit (''poi_'' @ int_text (poi_id p))))
       (filter (\<lambda>p. poi_name p \<noteq> None) (poi e)))"
  by (simp add: select_poi_def poi_row_def dict_get_def comp_def take_map)

lemma select_roads_ids:
  "map (\<lambda>row. dict_get row ''doc_id'') (select_roads e) =
     take 10000 (map (\<lambda>r. PStr (lit (''road_'' @ int_text (rd_id r))))
       (filter (\<lambda>r. rd_name r \<noteq> None) (named_roads e)))"
  by (simp add: select_roads_def road_row_def dict_get_def comp_def take_map)

lemma ids_prefix_unless:
  assumes "\<exists>k. map doc_id_of ds = take k ids"
  shows "\<exists>k. map doc_id_of (if q then [] else ds) = take k ids"
proof (cases q)
  case True
  then have "map doc_id_of (if q then [] else ds) = take 0 ids" by simp
  then show ?thesis by blast
next
  case False
  then show ?thesis using assms by simp
qed

lemma place_docs_ids:
  "\<exists>k. map doc_id_of (place_docs e) =
     take k (map (\<lambda>p. PStr (lit (''place_'' @ int_text (pl_id p))))
       (filter (\<lambda>p. pl_name p \<noteq> None) (places e)))"
  unfolding place_docs_def select_places_ids[symmetric]
  by (rule ids_prefix_unless, rule generate_docs_ids) (rule place_doc_id)

lemma boundary_docs_ids:
  "\<exists>k. map doc_id_of (boundary_docs e) =
     take k (map (\<lambda>b. PStr (lit (''admin_'' @ int_text (ab_id b))))
       (filter (\<lambda>b. ab_name b \<noteq> None \<and> ab_admin_level b \<in> {Some 4, Some 6, Some 7, Some 9})
          (admin_boundaries e)))"
  unfolding boundary_docs_def select_admin_boundaries_ids[symmetric]
  by (rule ids_prefix_unless, rule generate_docs_ids) (rule boundary_doc_id)

lemma poi_docs_ids:
  "\<exists>k. map doc_id_of (poi_docs e) =
     take k (map (\<lambda>p. PStr (lit (''poi_'' @ int_text (poi_id p))))
       (filter (\<lambda>p. poi_name p \<noteq> None) (poi e)))"
proof -
  have "\<exists>k. map doc_id_of (fst (generate_docs (poi_doc e) (select_poi e))) =
      take k (map (\<lambda>row. dict_get row ''doc_id'') (select_poi e))"
    by (rule generate_docs_ids) (rule poi_doc_id)
  then obtain k where "map doc_id_of (fst (generate_docs (poi_doc e) (select_poi e))) =
      take k (map (\<lambda>row. dict_get row ''doc_id'') (select_poi e))"
    by blast
  then have "map doc_id_of (fst (generate_docs (poi_doc e) (select_poi e))) =
     take (min k 50000) (map (\<lambda>p. PStr (lit (''poi_'' @ int_text (poi_id p))))
       (filter (\<lambda>p. poi_name p \<noteq> None) (poi e)))"
    unfolding select_poi_ids by (simp only: take_take)
  then have "\<exists>k. map doc_id_of (fst (generate_docs (poi_doc e) (select_poi e))) =
     take k (map (\<lambda>p. PStr (lit (''poi_'' @ int_text (poi_id p))))
       (filter (\<lambda>p. poi_name p \<noteq> None) (poi e)))"
    by blast
  then show ?thesis unfolding poi_docs_def by (rule ids_prefix_unless)
qed

lemma road_docs_ids:
  "\<exists>k. map doc_id_of (road_docs e) =
     take k (map (\<lambda>r. PStr (lit (''road_'' @ int_text (rd_id r))))
       (filter (\<lambda>r. rd_name r \<noteq> None) (named_roads e)))"
proof -
  have "\<exists>k. map doc_id_of (fst (generate_docs (road_doc e) (select_roads e))) =
      take k (map (\<lambda>row. dict_get row ''doc_id'') (select_roads e))"
    by (rule generate_docs_ids) (rule road_doc_id)
  then obtain k where "map doc_id_of (fst (generate_docs (road_doc e) (select_roads e))) =
      take k (map (\<lambda>row. dict_get row ''doc_id'') (select_roads e))"
    by blast
  then have "map doc_id_of (fst (generate_docs (road_doc e) (select_roads e))) =
     take (min k 10000) (map (\<lambda>r. PStr (lit (''road_'' @ int_text (rd_id r))))
       (filter (\<lambda>r. rd_name r \<noteq> None) (named_roads e)))"
    unfolding select_roads_ids by (simp only: take_take)
  then have "\<exists>k. map doc_id_of (fst (generate_docs (road_doc e) (select_roads e))) =
     take k (map (\<lambda>r. PStr (lit (''road_'' @ int_text (rd_id r))))
       (filter (\<lambda>r. rd_name r \<noteq> None) (named_roads e)))"
    by blast
  then show ?thesis unfolding road_docs_def by (rule ids_prefix_unless)
qed

lemma all_docs_ids_distinct:
  assumes "distinct (map pl_id (places e))"
    and "distinct (map ab_id (admin_boundaries e))"
    and "distinct (map poi_id (poi e))"
    and "distinct (map rd_id (named_roads e))"
  shows "distinct (map doc_id_of (place_docs e @ boundary_docs e @ poi_docs e @ road_docs e))"
proof -
  let ?P = "map (\<lambda>p. PStr (lit (''place_'' @ int_text (pl_id p))))
       (filter (\<lambda>p. pl_name p \<noteq> None) (places e))"
  let ?A = "map (\<lambda>b. PStr (lit (''admin_'' @ int_text (ab_id b))))
       (filter (\<lambda>b. ab_name b \<noteq> None \<and> ab_admin_level b \<in> {Some 4, Some 6, Some 7, Some 9})
          (admin_boundaries e))"
  let ?O = "map (\<lambda>p. PStr (lit (''poi_'' @ int_text (poi_id p))))
       (filter (\<lambda>p. poi_name p \<noteq> None) (poi e))"
  let ?R = "map (\<lambda>r. PStr (lit (''road_'' @ int_text (rd_id r))))
       (filter (\<lambda>r. rd_name r \<noteq> None) (named_roads e))"
  obtain k1 where k1: "map doc_id_of (place_docs e) = take k1 ?P" using place_docs_ids by blast
  obtain k2 where k2: "map doc_id_of (boundary_docs e) = take k2 ?A" using boundary_docs_ids by blast
  obtain k3 where k3: "map doc_id_of (poi_docs e) = take k3 ?O" using poi_docs_ids by blast
  obtain k4 where k4: "map doc_id_of (road_docs e) = take k4 ?R" using road_docs_ids by blast
  have dP: "distinct ?P" using assms(1) by (rule distinct_prefixed_ids)
  have dA: "distinct ?A" using assms(2) by (rule distinct_prefixed_ids)
  have dO: "distinct ?O" using assms(3) by (rule distinct_prefixed_ids)
  have dR: "distinct ?R" using assms(4) by (rule distinct_prefixed_ids)
  have PA: "set ?P \<inter> set ?A = {}" by auto
  have PO: "set ?P \<inter> set ?O = {}" by auto
  have PR: "set ?P \<inter> set ?R = {}" by auto
  have AO: "set ?A \<inter> set ?O = {}" by auto
  have AR: "set ?A \<inter> set ?R = {}" by auto
  have OR: "set ?O \<inter> set ?R = {}" by auto
  have sub: "\<And>k xs. set (take k xs) \<subseteq> set xs" by (rule set_take_subset)
  have "distinct (take k1 ?P @ take k2 ?A @ take k3 ?O @ take k4 ?R)"
    using dP dA dO dR PA PO PR AO AR OR
      sub[of k1 ?P] sub[of k2 ?A] sub[of k3 ?O] sub[of k4 ?R]
    by (simp only: distinct_append distinct_take set_append) blast
  then show ?thesis by (simp only: map_append k1 k2 k3 k4)
qed

text \<open>
  C8. The documents produced in one run, across the four entity types, have pairwise
  distinct identifiers, given that the identifiers within each source table are distinct:
  an identifier is the prefix of its entity type followed by the decimal text of the
  source identifier.
\<close>

theorem document_ids_distinct:
  assumes "distinct (map pl_id (places e))"
    and "distinct (map ab_id (admin_boundaries e))"
    and "distinct (map poi_id (poi e))"
    and "distinct (map rd_id (named_roads e))"
  shows "distinct (map doc_id_of (streamed (snd (sync_all e initial_state))))"
proof -
  let ?all = "place_docs e @ boundary_docs e @ poi_docs e @ road_docs e"
  have d: "distinct (map doc_id_of ?all)" using assms by (rule all_docs_ids_distinct)
  have s0: "streamed initial_state = []" by (simp add: initial_state_def)
  have "streamed (snd (sync_all e initial_state)) \<in>
     {[], place_docs e, place_docs e @ boundary_docs e,
      place_docs e @ boundary_docs e @ poi_docs e, ?all}"
    using sync_all_body_streamed[of e initial_state]
    unfolding sync_all_streamed s0 by simp
  then obtain rest where "?all = streamed (snd (sync_all e initial_state)) @ rest"
    by auto
  then have "map doc_id_of ?all = map doc_id_of (streamed (snd (sync_all e initial_state)))
      @ map doc_id_of rest"
    by (metis map_append)
  then show ?thesis using d by (metis distinct_append)
qed

text \<open>The example tables have distinct identifiers.\<close>

theorem document_ids_distinct_witness:
  "distinct (map pl_id (places example_env))
   \<and> distinct (map ab_id (admin_boundaries example_env))
   \<and> distinct (map poi_id (poi example_env))
   \<and> distinct (map rd_id (named_roads example_env))
   \<and> distinct (map doc_id_of (streamed (snd (sync_all example_env initial_state))))"
proof -
  have h1: "distinct (map pl_id (places example_env))"
    by (simp add: example_env_def pokhara_def equator_place_def)
  have h2: "distinct (map ab_id (admin_boundaries example_env))"
    by (simp add: example_env_def gandaki_def kaski_def ward_kathmandu_05_def ward_nopattern_def)
  have h3: "distinct (map poi_id (poi example_env))"
    by (simp add: example_env_def)
  have h4: "distinct (map rd_id (named_roads example_env))"
    by (simp add: example_env_def)
  show ?thesis
    using document_ids_distinct[OF h1 h2 h3 h4] h1 h2 h3 h4 by blast
qed

end
